theory Spec2Isabelle
  imports Complex_Main
begin

section \<open>Python values\<close>

text \<open>
  A Python \<open>str\<close> is a sequence of Unicode code points; it is modelled as the list of
  their numbers, and a literal of the source is written \<open>lit ''...''\<close>.
\<close>

type_synonym pystr = "nat list"

definition lit :: "string \<Rightarrow> pystr" where
  "lit s = map of_char s"

text \<open>
  \<open>str.strip()\<close> without an argument removes leading and trailing whitespace, where
  whitespace is what \<open>str.isspace\<close> accepts: U+0009..U+000D, U+001C..U+0020, U+0085,
  U+00A0, U+1680, U+2000..U+200A, U+2028, U+2029, U+202F, U+205F and U+3000.
\<close>

definition isspace :: "nat \<Rightarrow> bool" where
  "isspace c \<longleftrightarrow>
     (9 \<le> c \<and> c \<le> 13) \<or> (28 \<le> c \<and> c \<le> 32) \<or> c = 133 \<or> c = 160 \<or> c = 5760 \<or>
     (8192 \<le> c \<and> c \<le> 8202) \<or> c = 8232 \<or> c = 8233 \<or> c = 8239 \<or> c = 8287 \<or> c = 12288"

definition strip :: "pystr \<Rightarrow> pystr" where
  "strip s = rev (dropWhile isspace (rev (dropWhile isspace s)))"

text \<open>The truth value of a string in a condition: a string is false exactly when empty.\<close>

definition truthy :: "pystr \<Rightarrow> bool" where
  "truthy s \<longleftrightarrow> s \<noteq> []"

text \<open>
  The values stored in the response dictionaries, and a dictionary literal as the list of
  its items in the order the literal writes them.
\<close>

datatype pyval = Str pystr | Float real | StrList "pystr list"

type_synonym pydict = "(string \<times> pyval) list"

definition has_key :: "pydict \<Rightarrow> string \<Rightarrow> bool" where
  "has_key d k \<longleftrightarrow> k \<in> set (map fst d)"

section \<open>Exceptions and the external collaborators\<close>

text \<open>
  \<open>IndexError\<close> is raised by a list subscript out of range, \<open>EmptyArgmax\<close> by
  \<open>torch.argmax\<close> of a tensor without elements, \<open>ShapeMismatch\<close> by
  \<open>cosine_similarity\<close> of two batches that do not broadcast, and \<open>ExternalError\<close>
  stands for whatever \<open>requests\<close>, \<open>PIL\<close> or the CLIP model raise.
\<close>

datatype exn = IndexError | EmptyArgmax | ShapeMismatch | ExternalError pystr

text \<open>
  The environment of a request. \<open>open_image\<close> is line 65 of \<open>main.py\<close>
  (\<open>Image.open(requests.get(url, stream=True).raw).convert("RGB").resize((224, 224))\<close>),
  \<open>get_image_features\<close> is the processor, the CLIP image encoder and the division by the
  norm (one row for the one image), \<open>get_text_features\<close> the same for a batch of texts
  (a list of rows), \<open>cosine_similarity\<close> is \<open>torch.nn.functional.cosine_similarity\<close> of
  two rows read as a real number, and \<open>str_exn\<close> is \<open>str(e)\<close> of an exception.
  The models are loaded once and only read, and the remote content is taken not to change
  during a request, so each of them is a function of its argument.
\<close>

record ('img, 'e) env =
  open_image :: "pystr \<Rightarrow> exn + 'img"
  get_image_features :: "'img \<Rightarrow> exn + 'e"
  get_text_features :: "pystr list \<Rightarrow> exn + 'e list"
  cosine_similarity :: "'e \<Rightarrow> 'e \<Rightarrow> real"
  str_exn :: "exn \<Rightarrow> pystr"

text \<open>The external calls a handler makes, in the order it makes them.\<close>

datatype 'img call = OpenImage pystr | GetImageFeatures 'img | GetTextFeatures "pystr list"

text \<open>
  A computation returns a value or raises, and records the external calls it made up to
  that point.
\<close>

type_synonym ('img, 'a) io = "(exn + 'a) \<times> 'img call list"

definition return_io :: "'a \<Rightarrow> ('img, 'a) io" where
  "return_io v = (Inr v, [])"

definition pure_io :: "exn + 'a \<Rightarrow> ('img, 'a) io" where
  "pure_io r = (r, [])"

definition bind_io :: "('img, 'a) io \<Rightarrow> ('a \<Rightarrow> ('img, 'b) io) \<Rightarrow> ('img, 'b) io" where
  "bind_io m f =
     (case m of
        (Inl e, cs) \<Rightarrow> (Inl e, cs)
      | (Inr v, cs) \<Rightarrow> (case f v of (r, cs') \<Rightarrow> (r, cs @ cs')))"

text \<open>\<open>try: m except Exception as e: h e\<close>\<close>

definition try_except :: "('img, 'a) io \<Rightarrow> (exn \<Rightarrow> ('img, 'a) io) \<Rightarrow> ('img, 'a) io" where
  "try_except m h =
     (case m of
        (Inl e, cs) \<Rightarrow> (case h e of (r, cs') \<Rightarrow> (r, cs @ cs'))
      | (Inr v, cs) \<Rightarrow> (Inr v, cs))"

definition call_open_image :: "('img, 'e) env \<Rightarrow> pystr \<Rightarrow> ('img, 'img) io" where
  "call_open_image env url = (open_image env url, [OpenImage url])"

definition call_image_features :: "('img, 'e) env \<Rightarrow> 'img \<Rightarrow> ('img, 'e) io" where
  "call_image_features env img = (get_image_features env img, [GetImageFeatures img])"

definition call_text_features :: "('img, 'e) env \<Rightarrow> pystr list \<Rightarrow> ('img, 'e list) io" where
  "call_text_features env texts = (get_text_features env texts, [GetTextFeatures texts])"

text \<open>\<open>xs[i]\<close> for an index that is not negative.\<close>

definition py_index :: "'a list \<Rightarrow> nat \<Rightarrow> exn + 'a" where
  "py_index xs i = (if i < length xs then Inr (xs ! i) else Inl IndexError)"

text \<open>
  The three handlers fetch and embed an image with the same four statements
  (lines 65 to 69, 109 to 115 and 197 to 201).
\<close>

definition load_image_norm :: "('img, 'e) env \<Rightarrow> pystr \<Rightarrow> ('img, 'e) io" where
  "load_image_norm env url =
     bind_io (call_open_image env url) (\<lambda>img. call_image_features env img)"

text \<open>
  What the fetch and the embedding of a URL give, without the calls; \<open>embeds\<close> says
  that the URL is not blank and that both steps succeed, \<open>embedding_of\<close> is the row then.
\<close>

definition image_result :: "('img, 'e) env \<Rightarrow> pystr \<Rightarrow> exn + 'e" where
  "image_result env url = fst (load_image_norm env url)"

definition embeds :: "('img, 'e) env \<Rightarrow> pystr \<Rightarrow> bool" where
  "embeds env url \<longleftrightarrow> truthy (strip url) \<and> \<not> isl (image_result env url)"

definition embedding_of :: "('img, 'e) env \<Rightarrow> pystr \<Rightarrow> 'e" where
  "embedding_of env url = projr (image_result env url)"

section \<open>\<open>/group-threshold\<close>\<close>

definition threshold :: real where
  "threshold = 3 / 10"

text \<open>The loop of lines 62 to 73; the bare \<open>except\<close> swallows every failure.\<close>

fun embed_images ::
  "('img, 'e) env \<Rightarrow> pystr list \<Rightarrow> 'e list \<times> pystr list \<Rightarrow> ('img, 'e list \<times> pystr list) io" where
  "embed_images env [] (image_embeddings, valid_image_urls) =
     return_io (image_embeddings, valid_image_urls)"
| "embed_images env (url # rest) (image_embeddings, valid_image_urls) =
     (if truthy (strip url) then
        bind_io
          (try_except
             (bind_io (load_image_norm env url) (\<lambda>normed.
                return_io (image_embeddings @ [normed], valid_image_urls @ [url])))
             (\<lambda>_. return_io (image_embeddings, valid_image_urls)))
          (\<lambda>st. embed_images env rest st)
      else embed_images env rest (image_embeddings, valid_image_urls))"

text \<open>The inner loop of lines 79 to 82, over \<open>enumerate(image_embeddings)\<close>.\<close>

fun match_images ::
  "('img, 'e) env \<Rightarrow> 'e \<Rightarrow> pystr list \<Rightarrow> (nat \<times> 'e) list \<Rightarrow> pystr list \<Rightarrow> exn + pystr list" where
  "match_images env t_vec valid_image_urls [] matches = Inr matches"
| "match_images env t_vec valid_image_urls ((j, i_vec) # rest) matches =
     (if cosine_similarity env t_vec i_vec > 1 - threshold then
        (case py_index valid_image_urls j of
           Inl e \<Rightarrow> Inl e
         | Inr u \<Rightarrow> match_images env t_vec valid_image_urls rest (matches @ [u]))
      else match_images env t_vec valid_image_urls rest matches)"

text \<open>The outer loop of lines 77 to 83, over \<open>enumerate(text_embeddings)\<close>.\<close>

fun compare_texts ::
  "('img, 'e) env \<Rightarrow> pystr list \<Rightarrow> 'e list \<Rightarrow> pystr list \<Rightarrow> (nat \<times> 'e) list \<Rightarrow> pydict list
     \<Rightarrow> exn + pydict list" where
  "compare_texts env valid_texts image_embeddings valid_image_urls [] grouped = Inr grouped"
| "compare_texts env valid_texts image_embeddings valid_image_urls ((i, t_vec) # rest) grouped =
     (case py_index valid_texts i of
        Inl e \<Rightarrow> Inl e
      | Inr t \<Rightarrow>
          (case match_images env t_vec valid_image_urls (enumerate 0 image_embeddings) [] of
             Inl e \<Rightarrow> Inl e
           | Inr matches \<Rightarrow>
               compare_texts env valid_texts image_embeddings valid_image_urls rest
                 (grouped @ [[(''text'', Str t), (''matches'', StrList matches)]])))"

definition group_by_similarity ::
  "('img, 'e) env \<Rightarrow> pystr list \<Rightarrow> pystr list \<Rightarrow> ('img, pydict list) io" where
  "group_by_similarity env texts image_urls =
     (if texts = [] \<or> \<not> list_ex (\<lambda>text. truthy (strip text)) texts then return_io []
      else
        let valid_texts = filter (\<lambda>text. truthy (strip text)) texts in
        bind_io (call_text_features env valid_texts) (\<lambda>text_embeddings.
        bind_io (embed_images env image_urls ([], [])) (\<lambda>(image_embeddings, valid_image_urls).
        pure_io (compare_texts env valid_texts image_embeddings valid_image_urls
                   (enumerate 0 text_embeddings) []))))"

section \<open>Operations of \<open>torch\<close> on the similarity scores\<close>

text \<open>
  \<open>torch.argmax\<close> of a one-dimensional tensor, as its documentation has it: the index of
  the maximal value and, if there are several maximal values, of the first of them. On a
  tensor without elements it raises.
\<close>

fun argmax_from :: "nat \<Rightarrow> real \<Rightarrow> nat \<Rightarrow> real list \<Rightarrow> nat" where
  "argmax_from best best_val i [] = best"
| "argmax_from best best_val i (x # xs) =
     (if x > best_val then argmax_from i x (Suc i) xs
      else argmax_from best best_val (Suc i) xs)"

definition argmax :: "real list \<Rightarrow> exn + nat" where
  "argmax xs = (case xs of [] \<Rightarrow> Inl EmptyArgmax | x # rest \<Rightarrow> Inr (argmax_from 0 x 1 rest))"

text \<open>
  \<open>cosine_similarity(x1, x2)\<close> of two batches of rows, along the rows: batches of the
  same size are compared row by row, a batch of one row is compared with every row of the
  other, and other sizes do not broadcast.
\<close>

definition cosine_similarity_rows ::
  "('img, 'e) env \<Rightarrow> 'e list \<Rightarrow> 'e list \<Rightarrow> exn + real list" where
  "cosine_similarity_rows env x1 x2 =
     (if length x1 = length x2 then Inr (map2 (cosine_similarity env) x1 x2)
      else if length x1 = 1 then Inr (map (cosine_similarity env (hd x1)) x2)
      else if length x2 = 1 then Inr (map (\<lambda>a. cosine_similarity env a (hd x2)) x1)
      else Inl ShapeMismatch)"

section \<open>\<open>/classify-art-style\<close>\<close>

definition art_styles :: "pystr list" where
  "art_styles = map lit
     [''impressionism'', ''abstract'', ''realistic'', ''minimalist'',
      ''surreal'', ''vintage'', ''modern'', ''classical'', ''pop art'',
      ''cubism'', ''expressionism'', ''renaissance'', ''baroque'', ''contemporary'']"

text \<open>The statements of the inner \<open>try\<close>, lines 108 to 132, up to the record they append.\<close>

definition style_of_image :: "('img, 'e) env \<Rightarrow> pystr \<Rightarrow> ('img, pydict) io" where
  "style_of_image env image_url =
     bind_io (load_image_norm env image_url) (\<lambda>image_norm.
     bind_io (call_text_features env art_styles) (\<lambda>style_norm.
     bind_io (pure_io (cosine_similarity_rows env [image_norm] style_norm)) (\<lambda>similarities.
     bind_io (pure_io (argmax similarities)) (\<lambda>top_style_idx.
     bind_io (pure_io (py_index art_styles top_style_idx)) (\<lambda>style.
     bind_io (pure_io (py_index similarities top_style_idx)) (\<lambda>confidence.
     return_io
       [(''image'', Str image_url), (''style'', Str style), (''confidence'', Float confidence)]))))))"

text \<open>The inner \<open>try\<close> with its \<open>except Exception as img_error\<close>, lines 107 to 140.\<close>

definition classify_image_style :: "('img, 'e) env \<Rightarrow> pystr \<Rightarrow> ('img, pydict) io" where
  "classify_image_style env image_url =
     try_except (style_of_image env image_url)
       (\<lambda>img_error. return_io
          [(''image'', Str image_url), (''style'', Str (lit ''unknown'')),
           (''confidence'', Float 0),
           (''error'', Str (lit ''Failed to process image: '' @ str_exn env img_error))])"

text \<open>The loop of lines 103 to 140; a blank URL is skipped by \<open>continue\<close>.\<close>

fun classify_images ::
  "('img, 'e) env \<Rightarrow> pystr list \<Rightarrow> pydict list \<Rightarrow> ('img, pydict list) io" where
  "classify_images env [] results = return_io results"
| "classify_images env (image_url # rest) results =
     (if \<not> truthy (strip image_url) then classify_images env rest results
      else bind_io (classify_image_style env image_url) (\<lambda>r.
             classify_images env rest (results @ [r])))"

text \<open>
  The handler: the outer \<open>try\<close> turns an exception that leaves the loop into an
  \<open>HTTPException\<close> with status 500. The texts of the request are not read.
\<close>

datatype http_exception = HTTPException nat pystr

record art_response =
  classifications :: "pydict list"

definition classify_art_style ::
  "('img, 'e) env \<Rightarrow> pystr list \<Rightarrow> pystr list
     \<Rightarrow> (http_exception + art_response) \<times> 'img call list" where
  "classify_art_style env texts images =
     (case classify_images env images [] of
        (Inr results, cs) \<Rightarrow> (Inr \<lparr>classifications = results\<rparr>, cs)
      | (Inl e, cs) \<Rightarrow>
          (Inl (HTTPException 500 (lit ''Art style classification failed: '' @ str_exn env e)),
           cs))"

section \<open>\<open>/classify-mood-theme\<close>\<close>

definition mood_categories :: "pystr list" where
  "mood_categories = map lit
     [''happy'', ''sad'', ''energetic'', ''calm'', ''mysterious'', ''romantic'', ''aggressive'',
      ''peaceful'']"

definition theme_categories :: "pystr list" where
  "theme_categories = map lit
     [''nature'', ''urban'', ''technology'', ''art'', ''food'', ''travel'', ''fashion'',
      ''sports'', ''business'', ''education'']"

text \<open>
  Lines 168 to 190 for a text and lines 204 to 224 for an image are the same statements on
  the rows \<open>x_norm\<close> of the item: they give the last four items of the record.
\<close>

definition mood_theme :: "('img, 'e) env \<Rightarrow> 'e list \<Rightarrow> ('img, pydict) io" where
  "mood_theme env x_norm =
     bind_io (call_text_features env mood_categories) (\<lambda>mood_norm.
     bind_io (call_text_features env theme_categories) (\<lambda>theme_norm.
     bind_io (pure_io (cosine_similarity_rows env x_norm mood_norm)) (\<lambda>mood_similarities.
     bind_io (pure_io (cosine_similarity_rows env x_norm theme_norm)) (\<lambda>theme_similarities.
     bind_io (pure_io (argmax mood_similarities)) (\<lambda>top_mood_idx.
     bind_io (pure_io (argmax theme_similarities)) (\<lambda>top_theme_idx.
     bind_io (pure_io (py_index mood_categories top_mood_idx)) (\<lambda>mood.
     bind_io (pure_io (py_index theme_categories top_theme_idx)) (\<lambda>theme.
     bind_io (pure_io (py_index mood_similarities top_mood_idx)) (\<lambda>mood_confidence.
     bind_io (pure_io (py_index theme_similarities top_theme_idx)) (\<lambda>theme_confidence.
     return_io
       [(''mood'', Str mood), (''theme'', Str theme),
        (''mood_confidence'', Float mood_confidence),
        (''theme_confidence'', Float theme_confidence)]))))))))))"

text \<open>The body of the loop over the texts, lines 162 to 191: nothing catches a failure.\<close>

definition classify_text :: "('img, 'e) env \<Rightarrow> pystr \<Rightarrow> ('img, pydict) io" where
  "classify_text env text =
     bind_io (call_text_features env [text]) (\<lambda>text_norm.
     bind_io (mood_theme env text_norm) (\<lambda>items.
     return_io ([(''type'', Str (lit ''text'')), (''content'', Str text)] @ items)))"

text \<open>The body of the loop over the URLs, lines 196 to 231.\<close>

definition classify_image :: "('img, 'e) env \<Rightarrow> pystr \<Rightarrow> ('img, pydict) io" where
  "classify_image env url =
     try_except
       (bind_io (load_image_norm env url) (\<lambda>image_norm.
        bind_io (mood_theme env [image_norm]) (\<lambda>items.
        return_io ([(''type'', Str (lit ''image'')), (''content'', Str url)] @ items))))
       (\<lambda>e. return_io
          [(''type'', Str (lit ''image'')), (''content'', Str url),
           (''error'', Str (lit ''Failed to process image: '' @ str_exn env e))])"

fun classify_texts ::
  "('img, 'e) env \<Rightarrow> pystr list \<Rightarrow> pydict list \<Rightarrow> ('img, pydict list) io" where
  "classify_texts env [] results = return_io results"
| "classify_texts env (text # rest) results =
     (if truthy (strip text) then
        bind_io (classify_text env text) (\<lambda>r. classify_texts env rest (results @ [r]))
      else classify_texts env rest results)"

fun classify_urls ::
  "('img, 'e) env \<Rightarrow> pystr list \<Rightarrow> pydict list \<Rightarrow> ('img, pydict list) io" where
  "classify_urls env [] results = return_io results"
| "classify_urls env (url # rest) results =
     (if truthy (strip url) then
        bind_io (classify_image env url) (\<lambda>r. classify_urls env rest (results @ [r]))
      else classify_urls env rest results)"

definition classify_mood_theme ::
  "('img, 'e) env \<Rightarrow> pystr list \<Rightarrow> pystr list \<Rightarrow> ('img, pydict list) io" where
  "classify_mood_theme env texts image_urls =
     bind_io (classify_texts env texts []) (\<lambda>results. classify_urls env image_urls results)"

section \<open>Comparing two runs\<close>

text \<open>
  Two results have the same outcome when both are exceptions, whatever the exceptions
  are, or both are values and the values are related. \<open>blank_error\<close> empties the
  message of the \<open>error\<close> item of a record and keeps every other item, so that two
  records with the same \<open>blank_error\<close> have the same items in the same order and differ
  at most in what the error message says.
\<close>

definition same_outcome :: "('a \<Rightarrow> 'b \<Rightarrow> bool) \<Rightarrow> 'x + 'a \<Rightarrow> 'y + 'b \<Rightarrow> bool" where
  "same_outcome R r1 r2 =
     (case r1 of
        Inl _ \<Rightarrow> isl r2
      | Inr a \<Rightarrow> (case r2 of Inl _ \<Rightarrow> False | Inr b \<Rightarrow> R a b))"



text \<open>Two computations with the same outcome and the same external calls.\<close>

definition same_run ::
  "('a \<Rightarrow> 'b \<Rightarrow> bool) \<Rightarrow> ('img, 'a) io \<Rightarrow> ('img, 'b) io \<Rightarrow> bool" where
  "same_run R m1 m2 \<longleftrightarrow> same_outcome R (fst m1) (fst m2) \<and> snd m1 = snd m2"

section \<open>A small environment to run the handlers on\<close>

text \<open>
  An image is its URL's length, a row is a single number (a tenth of the length of the
  text or URL it comes from), two rows are the more similar the closer their numbers are,
  the URL \<open>bad\<close> cannot be fetched and a batch holding the text \<open>boom\<close> cannot be
  embedded.
\<close>

definition example_env :: "(nat, real) env" where
  "example_env =
     \<lparr> open_image = (\<lambda>url. if url = lit ''bad'' then Inl (ExternalError (lit ''no route''))
                              else Inr (length url)),
       get_image_features = (\<lambda>img. Inr (real img / 10)),
       get_text_features = (\<lambda>texts. if lit ''boom'' \<in> set texts
                              then Inl (ExternalError (lit ''out of memory''))
                              else Inr (map (\<lambda>t. real (length t) / 10) texts)),
       cosine_similarity = (\<lambda>a b. 1 - \<bar>a - b\<bar>),
       str_exn = (\<lambda>e. case e of ExternalError m \<Rightarrow> m | _ \<Rightarrow> lit ''error'') \<rparr>"


section \<open>Strings\<close>

lemma truthy_strip_iff: "truthy (strip s) \<longleftrightarrow> (\<exists>c \<in> set s. \<not> isspace c)"
proof -
  have "strip s = [] \<longleftrightarrow> dropWhile isspace s = []"
  proof
    assume d: "dropWhile isspace s = []"
    show "strip s = []" unfolding strip_def d by simp
  next
    assume a: "strip s = []"
    show "dropWhile isspace s = []"
    proof (rule ccontr)
      assume ne: "dropWhile isspace s \<noteq> []"
      then have "\<not> isspace (hd (dropWhile isspace s))" by (rule hd_dropWhile)
      moreover from a have "\<forall>x \<in> set (rev (dropWhile isspace s)). isspace x"
        by (simp add: strip_def dropWhile_eq_Nil_conv)
      ultimately show False using ne by (simp add: hd_in_set)
    qed
  qed
  then have "truthy (strip s) \<longleftrightarrow> dropWhile isspace s \<noteq> []"
    by (simp only: truthy_def)
  also have "\<dots> \<longleftrightarrow> (\<exists>c \<in> set s. \<not> isspace c)"
    by (simp only: dropWhile_eq_Nil_conv) simp
  finally show ?thesis .
qed

section \<open>Results of computations\<close>

lemma fst_return_io: "fst (return_io v) = Inr v"
  by (simp add: return_io_def)

lemma fst_pure_io: "fst (pure_io r) = r"
  by (simp add: pure_io_def)

lemma fst_bind_io:
  "fst (bind_io m f) = (case fst m of Inl e \<Rightarrow> Inl e | Inr v \<Rightarrow> fst (f v))"
  by (simp add: bind_io_def split: prod.splits sum.splits)

lemma fst_try_except:
  "fst (try_except m h) = (case fst m of Inl e \<Rightarrow> fst (h e) | Inr v \<Rightarrow> Inr v)"
  by (simp add: try_except_def split: prod.splits sum.splits)

lemmas fst_io = fst_return_io fst_pure_io fst_bind_io fst_try_except

lemma image_result_eq:
  "image_result env url =
     (case open_image env url of Inl e \<Rightarrow> Inl e | Inr img \<Rightarrow> get_image_features env img)"
  by (simp add: image_result_def load_image_norm_def fst_bind_io call_open_image_def
      call_image_features_def split: sum.splits)

section \<open>The loops of \<open>/group-threshold\<close>\<close>

lemma embed_images_result:
  "fst (embed_images env urls (embs, vs)) =
     Inr (embs @ map (embedding_of env) (filter (embeds env) urls), vs @ filter (embeds env) urls)"
proof (induction urls arbitrary: embs vs)
  case Nil
  show ?case by (simp add: fst_io)
next
  case (Cons url rest)
  show ?case
  proof (cases "embeds env url")
    case True
    then obtain v where v: "image_result env url = Inr v"
      by (cases "image_result env url") (auto simp: embeds_def)
    with True show ?thesis
      using Cons.IH [of "embs @ [v]" "vs @ [url]"]
      by (simp add: fst_io embeds_def embedding_of_def image_result_def [symmetric])
  next
    case False
    then show ?thesis
      using Cons.IH [of embs vs]
      by (cases "image_result env url")
        (auto simp: fst_io embeds_def image_result_def [symmetric])
  qed
qed

lemma match_images_result:
  "length embs \<le> length vs \<Longrightarrow>
     match_images env t_vec (pre @ vs) (enumerate (length pre) embs) acc =
       Inr (acc @ [u. (v, u) \<leftarrow> zip embs vs, cosine_similarity env t_vec v > 7 / 10])"
proof (induction embs arbitrary: pre vs acc)
  case Nil
  show ?case by simp
next
  case (Cons v embs)
  then obtain u vs' where vs: "vs = u # vs'" and len: "length embs \<le> length vs'"
    by (cases vs) auto
  have "match_images env t_vec ((pre @ [u]) @ vs') (enumerate (length (pre @ [u])) embs) acc' =
      Inr (acc' @ [u. (v, u) \<leftarrow> zip embs vs', cosine_similarity env t_vec v > 7 / 10])" for acc'
    using len by (rule Cons.IH)
  then show ?case
    by (simp add: vs py_index_def threshold_def)
qed

lemma compare_texts_result:
  "length tes \<le> length ts \<Longrightarrow> length embs \<le> length vs \<Longrightarrow>
     compare_texts env (pre @ ts) embs vs (enumerate (length pre) tes) acc =
       Inr (acc @ map (\<lambda>(t, t_vec).
              [(''text'', Str t),
               (''matches'',
                StrList [u. (v, u) \<leftarrow> zip embs vs, cosine_similarity env t_vec v > 7 / 10])])
            (zip ts tes))"
proof (induction tes arbitrary: pre ts acc)
  case Nil
  show ?case by simp
next
  case (Cons t_vec tes)
  then obtain t ts' where ts: "ts = t # ts'" and len: "length tes \<le> length ts'"
    by (cases ts) auto
  have m: "match_images env t_vec vs (enumerate 0 embs) [] =
      Inr [u. (v, u) \<leftarrow> zip embs vs, cosine_similarity env t_vec v > 7 / 10]"
    using match_images_result [OF Cons.prems(2), of env t_vec "[]" "[]"] by simp
  have "compare_texts env ((pre @ [t]) @ ts') embs vs (enumerate (length (pre @ [t])) tes) acc' =
      Inr (acc' @ map (\<lambda>(t, t_vec).
              [(''text'', Str t),
               (''matches'',
                StrList [u. (v, u) \<leftarrow> zip embs vs, cosine_similarity env t_vec v > 7 / 10])])
            (zip ts' tes))" for acc'
    using len Cons.prems(2) by (rule Cons.IH)
  then show ?case
    by (simp add: ts py_index_def m)
qed

lemma zip_map_filter:
  "[u. (v, u) \<leftarrow> zip (map f xs) xs, P v] = filter (\<lambda>u. P (f u)) xs"
  by (induction xs) auto

lemma group_by_similarity_result:
  assumes ne: "\<exists>t \<in> set texts. truthy (strip t)"
    and tf: "get_text_features env (filter (\<lambda>t. truthy (strip t)) texts) = Inr tes"
    and shape: "length tes \<le> length (filter (\<lambda>t. truthy (strip t)) texts)"
  shows "fst (group_by_similarity env texts image_urls) =
     Inr (map (\<lambda>(t, t_vec).
            [(''text'', Str t),
             (''matches'',
              StrList [u \<leftarrow> image_urls.
                 embeds env u \<and> cosine_similarity env t_vec (embedding_of env u) > 7 / 10])])
          (zip (filter (\<lambda>t. truthy (strip t)) texts) tes))"
proof -
  have c: "compare_texts env (filter (\<lambda>t. truthy (strip t)) texts)
      (map (embedding_of env) (filter (embeds env) image_urls)) (filter (embeds env) image_urls)
      (enumerate 0 tes) [] =
     Inr (map (\<lambda>(t, t_vec).
            [(''text'', Str t),
             (''matches'',
              StrList [u \<leftarrow> image_urls.
                 embeds env u \<and> cosine_similarity env t_vec (embedding_of env u) > 7 / 10])])
          (zip (filter (\<lambda>t. truthy (strip t)) texts) tes))"
    using compare_texts_result [OF shape, of "map (embedding_of env) (filter (embeds env) image_urls)"
        "filter (embeds env) image_urls" env "[]" "[]"]
    by (simp add: zip_map_filter conj_commute)
  from ne have "texts \<noteq> []" "list_ex (\<lambda>t. truthy (strip t)) texts"
    by (auto simp: list_ex_iff)
  then show ?thesis
    using embed_images_result [of env image_urls "[]" "[]"]
    by (simp add: group_by_similarity_def fst_io call_text_features_def tf c Let_def)
qed


lemma group_by_similarity_no_text:
  "\<not> (\<exists>t \<in> set texts. truthy (strip t)) \<Longrightarrow>
     group_by_similarity env texts image_urls = (Inr [], [])"
  by (auto simp: group_by_similarity_def return_io_def list_ex_iff)

lemma comprehension_by_index:
  assumes "length embs = length vs"
  shows "[vs ! j. j \<leftarrow> [0..<length embs], P (embs ! j)] = [u. (v, u) \<leftarrow> zip embs vs, P v]"
proof -
  have "zip embs vs = map (\<lambda>j. (embs ! j, vs ! j)) [0..<length embs]"
    using assms by (intro nth_equalityI) auto
  then show ?thesis
    by (simp add: comp_def)
qed

lemma embed_images_lists:
  assumes "fst (embed_images env image_urls ([], [])) = Inr (image_embeddings, valid_image_urls)"
  shows "valid_image_urls = filter (embeds env) image_urls"
    and "image_embeddings = map (embedding_of env) valid_image_urls"
  using assms embed_images_result [of env image_urls "[]" "[]"] by auto

lemma embeds_image_result: "embeds env u \<Longrightarrow> image_result env u = Inr (embedding_of env u)"
  by (cases "image_result env u") (auto simp: embeds_def embedding_of_def)

lemmas example_simps = example_env_def lit_def truthy_def strip_def isspace_def fst_io
  load_image_norm_def call_open_image_def call_image_features_def call_text_features_def

lemma map_snd_filter_zip_map:
  "map snd (filter (\<lambda>(v, u). P v) (zip (map f xs) xs)) = filter (\<lambda>u. P (f u)) xs"
  by (induction xs) auto

lemma list_of_length_two: "length xs = 2 \<Longrightarrow> xs = [xs ! 0, xs ! 1]"
  by (cases xs; cases "tl xs") auto

section \<open>The scores and the loop of \<open>/classify-art-style\<close>\<close>

lemma argmax_from_first_max:
  assumes "b < length pre" and "pre ! b = bv"
    and "\<forall>j < length pre. pre ! j \<le> bv" and "\<forall>j < b. pre ! j < bv"
  shows "argmax_from b bv (length pre) xs < length (pre @ xs) \<and>
    (\<forall>j < length (pre @ xs). (pre @ xs) ! j \<le> (pre @ xs) ! argmax_from b bv (length pre) xs) \<and>
    (\<forall>j < argmax_from b bv (length pre) xs.
        (pre @ xs) ! j < (pre @ xs) ! argmax_from b bv (length pre) xs)"
  using assms
proof (induction xs arbitrary: pre b bv)
  case Nil
  then show ?case by simp
next
  case (Cons x xs)
  show ?case
  proof (cases "x > bv")
    case True
    have "argmax_from (length pre) x (length (pre @ [x])) xs < length ((pre @ [x]) @ xs) \<and>
      (\<forall>j < length ((pre @ [x]) @ xs).
          ((pre @ [x]) @ xs) ! j \<le> ((pre @ [x]) @ xs) ! argmax_from (length pre) x (length (pre @ [x])) xs) \<and>
      (\<forall>j < argmax_from (length pre) x (length (pre @ [x])) xs.
          ((pre @ [x]) @ xs) ! j < ((pre @ [x]) @ xs) ! argmax_from (length pre) x (length (pre @ [x])) xs)"
    proof (rule Cons.IH)
      show "length pre < length (pre @ [x])" by simp
      show "(pre @ [x]) ! length pre = x" by simp
      show "\<forall>j < length (pre @ [x]). (pre @ [x]) ! j \<le> x"
        using Cons.prems(3) True by (auto simp: nth_append less_Suc_eq intro: order.trans less_imp_le)
      show "\<forall>j < length pre. (pre @ [x]) ! j < x"
        using Cons.prems(3) True by (auto simp: nth_append intro: le_less_trans)
    qed
    with True show ?thesis by simp
  next
    case False
    have "argmax_from b bv (length (pre @ [x])) xs < length ((pre @ [x]) @ xs) \<and>
      (\<forall>j < length ((pre @ [x]) @ xs).
          ((pre @ [x]) @ xs) ! j \<le> ((pre @ [x]) @ xs) ! argmax_from b bv (length (pre @ [x])) xs) \<and>
      (\<forall>j < argmax_from b bv (length (pre @ [x])) xs.
          ((pre @ [x]) @ xs) ! j < ((pre @ [x]) @ xs) ! argmax_from b bv (length (pre @ [x])) xs)"
    proof (rule Cons.IH)
      show "b < length (pre @ [x])" using Cons.prems(1) by simp
      show "(pre @ [x]) ! b = bv" using Cons.prems(1,2) by (simp add: nth_append)
      show "\<forall>j < length (pre @ [x]). (pre @ [x]) ! j \<le> bv"
        using Cons.prems(3) False by (auto simp: nth_append less_Suc_eq)
      show "\<forall>j < b. (pre @ [x]) ! j < bv"
        using Cons.prems(1,4) by (auto simp: nth_append)
    qed
    with False show ?thesis by simp
  qed
qed

lemma argmax_first_max:
  assumes "xs \<noteq> []"
  shows "\<exists>k. argmax xs = Inr k \<and> k < length xs \<and>
    (\<forall>j < length xs. xs ! j \<le> xs ! k) \<and> (\<forall>j < k. xs ! j < xs ! k)"
proof -
  from assms obtain x rest where xs: "xs = x # rest" by (cases xs) auto
  have "argmax_from 0 x (length [x]) rest < length ([x] @ rest) \<and>
    (\<forall>j < length ([x] @ rest). ([x] @ rest) ! j \<le> ([x] @ rest) ! argmax_from 0 x (length [x]) rest) \<and>
    (\<forall>j < argmax_from 0 x (length [x]) rest.
        ([x] @ rest) ! j < ([x] @ rest) ! argmax_from 0 x (length [x]) rest)"
    by (rule argmax_from_first_max) auto
  then show ?thesis
    by (simp add: xs argmax_def)
qed

lemma argmax_Nil: "argmax [] = Inl EmptyArgmax"
  by (simp add: argmax_def)

lemma cosine_similarity_rows_single:
  "cosine_similarity_rows env [x] rows = Inr (map (cosine_similarity env x) rows)"
  by (cases rows; cases "tl rows") (auto simp: cosine_similarity_rows_def)


lemma style_of_image_result:
  "fst (style_of_image env url) =
     (case image_result env url of
        Inl e \<Rightarrow> Inl e
      | Inr x \<Rightarrow>
          (case get_text_features env art_styles of
             Inl e \<Rightarrow> Inl e
           | Inr sn \<Rightarrow>
               (case argmax (map (cosine_similarity env x) sn) of
                  Inl e \<Rightarrow> Inl e
                | Inr k \<Rightarrow>
                    (case py_index art_styles k of
                       Inl e \<Rightarrow> Inl e
                     | Inr s \<Rightarrow>
                         (case py_index (map (cosine_similarity env x) sn) k of
                            Inl e \<Rightarrow> Inl e
                          | Inr c \<Rightarrow>
                              Inr [(''image'', Str url), (''style'', Str s),
                                   (''confidence'', Float c)])))))"
  by (simp add: style_of_image_def fst_io image_result_def call_text_features_def
      cosine_similarity_rows_single split: sum.splits)

lemma style_of_image_Inr:
  assumes "fst (style_of_image env url) = Inr r"
  shows "\<exists>s c. r = [(''image'', Str url), (''style'', Str s), (''confidence'', Float c)] \<and>
    s \<in> set art_styles"
  using assms
  by (auto simp: style_of_image_result py_index_def split: sum.splits if_splits)

lemma classify_image_style_result:
  "fst (classify_image_style env url) =
     (case fst (style_of_image env url) of
        Inr r \<Rightarrow> Inr r
      | Inl e \<Rightarrow>
          Inr [(''image'', Str url), (''style'', Str (lit ''unknown'')), (''confidence'', Float 0),
               (''error'', Str (lit ''Failed to process image: '' @ str_exn env e))])"
  by (simp add: classify_image_style_def fst_io split: sum.splits)

lemma classify_image_style_total: "\<exists>r. fst (classify_image_style env url) = Inr r"
  by (cases "fst (style_of_image env url)") (simp_all add: classify_image_style_result)

lemma classify_images_result:
  "\<exists>rs. fst (classify_images env urls acc) = Inr (acc @ rs) \<and>
     map Inr rs = map (\<lambda>u. fst (classify_image_style env u)) [u \<leftarrow> urls. truthy (strip u)]"
proof (induction urls arbitrary: acc)
  case Nil
  show ?case by (simp add: fst_io)
next
  case (Cons url rest)
  show ?case
  proof (cases "truthy (strip url)")
    case False
    with Cons.IH [of acc] show ?thesis by simp
  next
    case True
    obtain r where r: "fst (classify_image_style env url) = Inr r"
      using classify_image_style_total by blast
    from Cons.IH [of "acc @ [r]"] obtain rs where
      "fst (classify_images env rest (acc @ [r])) = Inr ((acc @ [r]) @ rs)"
      "map Inr rs = map (\<lambda>u. fst (classify_image_style env u)) [u \<leftarrow> rest. truthy (strip u)]"
      by blast
    with True r show ?thesis
      by (intro exI [of _ "r # rs"]) (simp add: fst_io)
  qed
qed

lemma classify_art_style_result:
  "\<exists>results. fst (classify_art_style env texts images) = Inr \<lparr>classifications = results\<rparr> \<and>
     map Inr results = map (\<lambda>u. fst (classify_image_style env u)) [u \<leftarrow> images. truthy (strip u)]"
proof -
  from classify_images_result [of env images "[]"] obtain rs where
    "fst (classify_images env images []) = Inr rs"
    "map Inr rs = map (\<lambda>u. fst (classify_image_style env u)) [u \<leftarrow> images. truthy (strip u)]"
    by auto
  then show ?thesis
    by (cases "classify_images env images []") (auto simp: classify_art_style_def)
qed

lemma art_styles_length: "length art_styles = 14"
  by (simp add: art_styles_def)

lemma unknown_not_art_style: "lit ''unknown'' \<notin> set art_styles"
  by (simp add: art_styles_def lit_def)


lemma classify_image_style_shape:
  assumes "fst (classify_image_style env url) = Inr r"
  shows "\<exists>s. map_of r ''style'' = Some (Str s) \<and>
    (s \<in> set art_styles \<longleftrightarrow> \<not> has_key r ''error'') \<and>
    (s = lit ''unknown'' \<longleftrightarrow> has_key r ''error'')"
proof (cases "fst (style_of_image env url)")
  case (Inl e)
  with assms have "r = [(''image'', Str url), (''style'', Str (lit ''unknown'')),
      (''confidence'', Float 0),
      (''error'', Str (lit ''Failed to process image: '' @ str_exn env e))]"
    by (simp add: classify_image_style_result)
  then show ?thesis
    using unknown_not_art_style by (simp add: has_key_def)
next
  case (Inr r')
  with assms have "r' = r" by (simp add: classify_image_style_result)
  with Inr style_of_image_Inr [of env url r] obtain s c where
    "r = [(''image'', Str url), (''style'', Str s), (''confidence'', Float c)]" "s \<in> set art_styles"
    by auto
  then show ?thesis
    using unknown_not_art_style by (auto simp: has_key_def)
qed

lemma classify_image_style_argmax:
  assumes x: "image_result env url = Inr x"
    and sn: "get_text_features env art_styles = Inr sn"
    and len: "length sn = 14"
  shows "\<exists>k < 14.
      fst (classify_image_style env url) =
        Inr [(''image'', Str url), (''style'', Str (art_styles ! k)),
             (''confidence'', Float (cosine_similarity env x (sn ! k)))] \<and>
      (\<forall>j < 14. cosine_similarity env x (sn ! j) \<le> cosine_similarity env x (sn ! k)) \<and>
      (\<forall>j < k. cosine_similarity env x (sn ! j) < cosine_similarity env x (sn ! k))"
proof -
  let ?sims = "map (cosine_similarity env x) sn"
  from len have "?sims \<noteq> []" by auto
  from argmax_first_max [OF this] obtain k where k: "argmax ?sims = Inr k" "k < length ?sims"
    and mx: "\<forall>j < length ?sims. ?sims ! j \<le> ?sims ! k" and fs: "\<forall>j < k. ?sims ! j < ?sims ! k"
    by blast
  from k len have k14: "k < 14" by simp
  have "fst (classify_image_style env url) =
        Inr [(''image'', Str url), (''style'', Str (art_styles ! k)),
             (''confidence'', Float (cosine_similarity env x (sn ! k)))]"
    using k k14 len
    by (simp add: classify_image_style_result style_of_image_result x sn py_index_def
        art_styles_length)
  moreover have "\<forall>j < 14. cosine_similarity env x (sn ! j) \<le> cosine_similarity env x (sn ! k)"
    using mx k14 len by simp
  moreover have "\<forall>j < k. cosine_similarity env x (sn ! j) < cosine_similarity env x (sn ! k)"
    using fs k14 len by simp
  ultimately show ?thesis using k14 by blast
qed

lemma example_style_norm:
  "get_text_features example_env art_styles =
     Inr [13 / 10, 8 / 10, 9 / 10, 10 / 10, 7 / 10, 7 / 10, 6 / 10, 9 / 10, 7 / 10, 6 / 10,
          13 / 10, 11 / 10, 7 / 10, 12 / 10]"
  by (simp add: example_env_def art_styles_def lit_def)

section \<open>The loops of \<open>/classify-mood-theme\<close>\<close>

lemma mood_theme_Inr:
  assumes "fst (mood_theme env x_norm) = Inr items"
  shows "\<exists>mood_norm theme_norm ms ts km kt.
      get_text_features env mood_categories = Inr mood_norm \<and>
      get_text_features env theme_categories = Inr theme_norm \<and>
      cosine_similarity_rows env x_norm mood_norm = Inr ms \<and>
      cosine_similarity_rows env x_norm theme_norm = Inr ts \<and>
      argmax ms = Inr km \<and> argmax ts = Inr kt \<and>
      km < length mood_categories \<and> kt < length theme_categories \<and>
      km < length ms \<and> kt < length ts \<and>
      items =
        [(''mood'', Str (mood_categories ! km)), (''theme'', Str (theme_categories ! kt)),
         (''mood_confidence'', Float (ms ! km)), (''theme_confidence'', Float (ts ! kt))]"
  using assms
  by (auto simp: mood_theme_def fst_io call_text_features_def py_index_def
      split: sum.splits if_splits)

lemma classify_text_result:
  "fst (classify_text env t) =
     (case get_text_features env [t] of
        Inl e \<Rightarrow> Inl e
      | Inr text_norm \<Rightarrow>
          (case fst (mood_theme env text_norm) of
             Inl e \<Rightarrow> Inl e
           | Inr items \<Rightarrow>
               Inr ([(''type'', Str (lit ''text'')), (''content'', Str t)] @ items)))"
  by (simp add: classify_text_def fst_io call_text_features_def split: sum.splits)

lemma classify_image_result:
  "fst (classify_image env url) =
     (case image_result env url of
        Inl e \<Rightarrow>
          Inr [(''type'', Str (lit ''image'')), (''content'', Str url),
               (''error'', Str (lit ''Failed to process image: '' @ str_exn env e))]
      | Inr image_norm \<Rightarrow>
          (case fst (mood_theme env [image_norm]) of
             Inl e \<Rightarrow>
               Inr [(''type'', Str (lit ''image'')), (''content'', Str url),
                    (''error'', Str (lit ''Failed to process image: '' @ str_exn env e))]
           | Inr items \<Rightarrow>
               Inr ([(''type'', Str (lit ''image'')), (''content'', Str url)] @ items)))"
  by (simp add: classify_image_def fst_io image_result_def split: sum.splits)

lemma classify_image_total: "\<exists>r. fst (classify_image env url) = Inr r"
  by (simp add: classify_image_result split: sum.splits)

lemma classify_texts_Inr:
  assumes "fst (classify_texts env ts acc) = Inr out"
  shows "\<exists>rs. out = acc @ rs \<and>
    map Inr rs = map (\<lambda>t. fst (classify_text env t)) [t \<leftarrow> ts. truthy (strip t)]"
  using assms
proof (induction ts arbitrary: acc)
  case Nil
  then show ?case by (simp add: fst_io)
next
  case (Cons t ts)
  show ?case
  proof (cases "truthy (strip t)")
    case False
    with Cons show ?thesis by simp
  next
    case True
    with Cons.prems obtain r where r: "fst (classify_text env t) = Inr r"
      and rest: "fst (classify_texts env ts (acc @ [r])) = Inr out"
      by (auto simp: fst_io split: sum.splits)
    from Cons.IH [OF rest] obtain rs where "out = (acc @ [r]) @ rs"
      "map Inr rs = map (\<lambda>t. fst (classify_text env t)) [t \<leftarrow> ts. truthy (strip t)]"
      by blast
    with True r show ?thesis
      by (intro exI [of _ "r # rs"]) simp
  qed
qed

lemma classify_texts_total:
  assumes "\<forall>t \<in> set ts. truthy (strip t) \<longrightarrow> \<not> isl (fst (classify_text env t))"
  shows "\<exists>out. fst (classify_texts env ts acc) = Inr out"
  using assms
proof (induction ts arbitrary: acc)
  case Nil
  show ?case by (simp add: fst_io)
next
  case (Cons t ts)
  show ?case
  proof (cases "truthy (strip t)")
    case False
    with Cons show ?thesis by simp
  next
    case True
    with Cons.prems obtain r where r: "fst (classify_text env t) = Inr r"
      by (cases "fst (classify_text env t)") auto
    from Cons.IH [of "acc @ [r]"] Cons.prems
    obtain out where "fst (classify_texts env ts (acc @ [r])) = Inr out" by auto
    with True r show ?thesis by (simp add: fst_io)
  qed
qed

lemma classify_texts_raises:
  assumes "t \<in> set ts" and "truthy (strip t)" and "fst (classify_text env t) = Inl e"
  shows "\<exists>e'. fst (classify_texts env ts acc) = Inl e'"
proof (cases "fst (classify_texts env ts acc)")
  case (Inl e')
  then show ?thesis by blast
next
  case (Inr out)
  from classify_texts_Inr [OF Inr] obtain rs where
    m: "map Inr rs = map (\<lambda>t. fst (classify_text env t)) [t \<leftarrow> ts. truthy (strip t)]"
    by blast
  from assms have "Inl e \<in> set (map (\<lambda>t. fst (classify_text env t)) [t \<leftarrow> ts. truthy (strip t)])"
    by force
  with m have "Inl e \<in> set (map Inr rs)" by simp
  then show ?thesis by auto
qed

lemma classify_urls_result:
  "\<exists>rs. fst (classify_urls env urls acc) = Inr (acc @ rs) \<and>
     map Inr rs = map (\<lambda>u. fst (classify_image env u)) [u \<leftarrow> urls. truthy (strip u)]"
proof (induction urls arbitrary: acc)
  case Nil
  show ?case by (simp add: fst_io)
next
  case (Cons url rest)
  show ?case
  proof (cases "truthy (strip url)")
    case False
    with Cons.IH [of acc] show ?thesis by simp
  next
    case True
    obtain r where r: "fst (classify_image env url) = Inr r"
      using classify_image_total by blast
    from Cons.IH [of "acc @ [r]"] obtain rs where
      "fst (classify_urls env rest (acc @ [r])) = Inr ((acc @ [r]) @ rs)"
      "map Inr rs = map (\<lambda>u. fst (classify_image env u)) [u \<leftarrow> rest. truthy (strip u)]"
      by blast
    with True r show ?thesis
      by (intro exI [of _ "r # rs"]) (simp add: fst_io)
  qed
qed

lemma classify_mood_theme_Inr:
  assumes "fst (classify_mood_theme env texts image_urls) = Inr results"
  shows "\<exists>rs_texts rs_urls. results = rs_texts @ rs_urls \<and>
    map Inr rs_texts = map (\<lambda>t. fst (classify_text env t)) [t \<leftarrow> texts. truthy (strip t)] \<and>
    map Inr rs_urls = map (\<lambda>u. fst (classify_image env u)) [u \<leftarrow> image_urls. truthy (strip u)]"
proof -
  from assms obtain out where t: "fst (classify_texts env texts []) = Inr out"
    and u: "fst (classify_urls env image_urls out) = Inr results"
    by (auto simp: classify_mood_theme_def fst_io split: sum.splits)
  from classify_texts_Inr [OF t] have
    "map Inr out = map (\<lambda>t. fst (classify_text env t)) [t \<leftarrow> texts. truthy (strip t)]"
    by simp
  moreover from classify_urls_result [of env image_urls out] u obtain rs where
    "results = out @ rs"
    "map Inr rs = map (\<lambda>u. fst (classify_image env u)) [u \<leftarrow> image_urls. truthy (strip u)]"
    by auto
  ultimately show ?thesis by blast
qed

lemma classify_mood_theme_total:
  assumes "\<forall>t \<in> set texts. truthy (strip t) \<longrightarrow> \<not> isl (fst (classify_text env t))"
  shows "\<exists>results. fst (classify_mood_theme env texts image_urls) = Inr results"
proof -
  from classify_texts_total [OF assms, of "[]"] obtain out where
    "fst (classify_texts env texts []) = Inr out" by blast
  moreover from classify_urls_result [of env image_urls out] obtain rs where
    "fst (classify_urls env image_urls out) = Inr (out @ rs)" by blast
  ultimately show ?thesis
    by (simp add: classify_mood_theme_def fst_io)
qed

lemma classify_mood_theme_raises:
  assumes "t \<in> set texts" and "truthy (strip t)" and "fst (classify_text env t) = Inl e"
  shows "\<exists>e'. fst (classify_mood_theme env texts image_urls) = Inl e'"
  using classify_texts_raises [OF assms, of "[]"]
  by (auto simp: classify_mood_theme_def fst_io)


lemma categories_length: "length mood_categories = 8" "length theme_categories = 10"
  by (simp_all add: mood_categories_def theme_categories_def)

lemma classify_text_shape:
  assumes "fst (classify_text env t) = Inr r"
  shows "map_of r ''type'' = Some (Str (lit ''text'')) \<and> map_of r ''content'' = Some (Str t) \<and>
    \<not> has_key r ''error'' \<and>
    (\<exists>ty c x_norm mood_norm theme_norm ms ts km kt.
        r = [(''type'', Str ty), (''content'', Str c),
             (''mood'', Str (mood_categories ! km)), (''theme'', Str (theme_categories ! kt)),
             (''mood_confidence'', Float (ms ! km)), (''theme_confidence'', Float (ts ! kt))] \<and>
        km < 8 \<and> kt < 10 \<and>
        get_text_features env mood_categories = Inr mood_norm \<and>
        get_text_features env theme_categories = Inr theme_norm \<and>
        cosine_similarity_rows env x_norm mood_norm = Inr ms \<and> argmax ms = Inr km \<and>
        cosine_similarity_rows env x_norm theme_norm = Inr ts \<and> argmax ts = Inr kt)"
proof -
  from assms obtain text_norm items where
    i: "fst (mood_theme env text_norm) = Inr items"
    and r: "r = [(''type'', Str (lit ''text'')), (''content'', Str t)] @ items"
    by (auto simp: classify_text_result split: sum.splits)
  from mood_theme_Inr [OF i] obtain mood_norm theme_norm ms ts km kt where
    m: "get_text_features env mood_categories = Inr mood_norm"
      "get_text_features env theme_categories = Inr theme_norm"
      "cosine_similarity_rows env text_norm mood_norm = Inr ms"
      "cosine_similarity_rows env text_norm theme_norm = Inr ts"
      "argmax ms = Inr km" "argmax ts = Inr kt"
      "km < length mood_categories" "kt < length theme_categories"
    and items: "items =
        [(''mood'', Str (mood_categories ! km)), (''theme'', Str (theme_categories ! kt)),
         (''mood_confidence'', Float (ms ! km)), (''theme_confidence'', Float (ts ! kt))]"
    by blast
  from m(7,8) have b: "km < 8" "kt < 10"
    by (simp_all add: categories_length)
  have "\<exists>ty c x_norm mood_norm theme_norm ms ts km kt.
        r = [(''type'', Str ty), (''content'', Str c),
             (''mood'', Str (mood_categories ! km)), (''theme'', Str (theme_categories ! kt)),
             (''mood_confidence'', Float (ms ! km)), (''theme_confidence'', Float (ts ! kt))] \<and>
        km < 8 \<and> kt < 10 \<and>
        get_text_features env mood_categories = Inr mood_norm \<and>
        get_text_features env theme_categories = Inr theme_norm \<and>
        cosine_similarity_rows env x_norm mood_norm = Inr ms \<and> argmax ms = Inr km \<and>
        cosine_similarity_rows env x_norm theme_norm = Inr ts \<and> argmax ts = Inr kt"
    apply (rule exI [of _ "lit ''text''"], rule exI [of _ t], rule exI [of _ text_norm])
    apply (rule exI [of _ mood_norm], rule exI [of _ theme_norm])
    apply (rule exI [of _ ms], rule exI [of _ ts], rule exI [of _ km], rule exI [of _ kt])
    using m b by (simp add: r items)
  then show ?thesis
    by (simp add: r items has_key_def)
qed

lemma classify_image_shape:
  assumes "fst (classify_image env url) = Inr r"
  shows "map_of r ''type'' = Some (Str (lit ''image'')) \<and> map_of r ''content'' = Some (Str url) \<and>
    (has_key r ''error'' \<or>
     (\<exists>ty c x_norm mood_norm theme_norm ms ts km kt.
        r = [(''type'', Str ty), (''content'', Str c),
             (''mood'', Str (mood_categories ! km)), (''theme'', Str (theme_categories ! kt)),
             (''mood_confidence'', Float (ms ! km)), (''theme_confidence'', Float (ts ! kt))] \<and>
        km < 8 \<and> kt < 10 \<and>
        get_text_features env mood_categories = Inr mood_norm \<and>
        get_text_features env theme_categories = Inr theme_norm \<and>
        cosine_similarity_rows env x_norm mood_norm = Inr ms \<and> argmax ms = Inr km \<and>
        cosine_similarity_rows env x_norm theme_norm = Inr ts \<and> argmax ts = Inr kt))"
proof (cases "has_key r ''error''")
  case True
  with assms show ?thesis
    by (auto simp: classify_image_result has_key_def split: sum.splits)
next
  case False
  with assms obtain image_norm items where
    i: "fst (mood_theme env [image_norm]) = Inr items"
    and r: "r = [(''type'', Str (lit ''image'')), (''content'', Str url)] @ items"
    by (auto simp: classify_image_result has_key_def split: sum.splits)
  from mood_theme_Inr [OF i] obtain mood_norm theme_norm ms ts km kt where
    m: "get_text_features env mood_categories = Inr mood_norm"
      "get_text_features env theme_categories = Inr theme_norm"
      "cosine_similarity_rows env [image_norm] mood_norm = Inr ms"
      "cosine_similarity_rows env [image_norm] theme_norm = Inr ts"
      "argmax ms = Inr km" "argmax ts = Inr kt"
      "km < length mood_categories" "kt < length theme_categories"
    and items: "items =
        [(''mood'', Str (mood_categories ! km)), (''theme'', Str (theme_categories ! kt)),
         (''mood_confidence'', Float (ms ! km)), (''theme_confidence'', Float (ts ! kt))]"
    by blast
  from m(7,8) have b: "km < 8" "kt < 10"
    by (simp_all add: categories_length)
  have "\<exists>ty c x_norm mood_norm theme_norm ms ts km kt.
        r = [(''type'', Str ty), (''content'', Str c),
             (''mood'', Str (mood_categories ! km)), (''theme'', Str (theme_categories ! kt)),
             (''mood_confidence'', Float (ms ! km)), (''theme_confidence'', Float (ts ! kt))] \<and>
        km < 8 \<and> kt < 10 \<and>
        get_text_features env mood_categories = Inr mood_norm \<and>
        get_text_features env theme_categories = Inr theme_norm \<and>
        cosine_similarity_rows env x_norm mood_norm = Inr ms \<and> argmax ms = Inr km \<and>
        cosine_similarity_rows env x_norm theme_norm = Inr ts \<and> argmax ts = Inr kt"
    apply (rule exI [of _ "lit ''image''"], rule exI [of _ url], rule exI [of _ "[image_norm]"])
    apply (rule exI [of _ mood_norm], rule exI [of _ theme_norm])
    apply (rule exI [of _ ms], rule exI [of _ ts], rule exI [of _ km], rule exI [of _ kt])
    using m b by (simp add: r items)
  then show ?thesis
    by (simp add: r items)
qed

lemma map_Inr_nth:
  assumes "map Inr rs = map f xs" and "i < length xs"
  shows "f (xs ! i) = Inr (rs ! i)" and "length rs = length xs"
  using assms by (metis length_map nth_map)+

lemma map_Inr_all:
  assumes "map Inr rs = map f xs" and "r \<in> set rs"
  shows "\<exists>x \<in> set xs. f x = Inr r"
proof -
  from assms(2) obtain i where i: "i < length rs" "r = rs ! i"
    by (auto simp: in_set_conv_nth)
  from assms(1) have "length rs = length xs" by (metis length_map)
  with i assms(1) have "f (xs ! i) = Inr r" "xs ! i \<in> set xs"
    by (metis nth_map, simp)
  then show ?thesis by blast
qed


lemma lit_text_neq_image: "lit ''image'' \<noteq> lit ''text''"
  by (simp add: lit_def)

lemmas mood_theme_simps = classify_text_result classify_image_result image_result_eq
  mood_theme_def fst_io call_text_features_def mood_categories_def theme_categories_def
  cosine_similarity_rows_def argmax_def py_index_def example_env_def lit_def

lemma example_classify_hi:
  "fst (classify_text example_env (lit ''hi'')) =
     Inr [(''type'', Str (lit ''text'')), (''content'', Str (lit ''hi'')),
          (''mood'', Str (lit ''sad'')), (''theme'', Str (lit ''art'')),
          (''mood_confidence'', Float (9 / 10)), (''theme_confidence'', Float (9 / 10))]"
  by (simp add: mood_theme_simps)

lemma example_classify_boom:
  "fst (classify_text example_env (lit ''boom'')) = Inl (ExternalError (lit ''out of memory''))"
  by (simp add: mood_theme_simps)

lemma example_classify_pic:
  "fst (classify_image example_env (lit ''pic.jpg'')) =
     Inr [(''type'', Str (lit ''image'')), (''content'', Str (lit ''pic.jpg'')),
          (''mood'', Str (lit ''romantic'')), (''theme'', Str (lit ''fashion'')),
          (''mood_confidence'', Float (9 / 10)), (''theme_confidence'', Float 1)]"
  by (simp add: mood_theme_simps)

lemma mood_theme_first_max:
  assumes mn: "get_text_features env mood_categories = Inr mood_norm" "length mood_norm = 8"
    and tn: "get_text_features env theme_categories = Inr theme_norm" "length theme_norm = 10"
  shows "\<exists>km < 8. \<exists>kt < 10.
      fst (mood_theme env [x]) =
        Inr [(''mood'', Str (mood_categories ! km)), (''theme'', Str (theme_categories ! kt)),
             (''mood_confidence'', Float (cosine_similarity env x (mood_norm ! km))),
             (''theme_confidence'', Float (cosine_similarity env x (theme_norm ! kt)))] \<and>
      (\<forall>j < 8. cosine_similarity env x (mood_norm ! j) \<le> cosine_similarity env x (mood_norm ! km)) \<and>
      (\<forall>j < km. cosine_similarity env x (mood_norm ! j) < cosine_similarity env x (mood_norm ! km)) \<and>
      (\<forall>j < 10. cosine_similarity env x (theme_norm ! j) \<le> cosine_similarity env x (theme_norm ! kt)) \<and>
      (\<forall>j < kt. cosine_similarity env x (theme_norm ! j) < cosine_similarity env x (theme_norm ! kt))"
proof -
  let ?ms = "map (cosine_similarity env x) mood_norm"
  let ?ts = "map (cosine_similarity env x) theme_norm"
  from mn(2) have "?ms \<noteq> []" by auto
  from argmax_first_max [OF this] obtain km where km: "argmax ?ms = Inr km" "km < length ?ms"
    and mmx: "\<forall>j < length ?ms. ?ms ! j \<le> ?ms ! km" and mfs: "\<forall>j < km. ?ms ! j < ?ms ! km"
    by blast
  from tn(2) have "?ts \<noteq> []" by auto
  from argmax_first_max [OF this] obtain kt where kt: "argmax ?ts = Inr kt" "kt < length ?ts"
    and tmx: "\<forall>j < length ?ts. ?ts ! j \<le> ?ts ! kt" and tfs: "\<forall>j < kt. ?ts ! j < ?ts ! kt"
    by blast
  from km mn(2) have km8: "km < 8" by simp
  from kt tn(2) have kt10: "kt < 10" by simp
  have "fst (mood_theme env [x]) =
        Inr [(''mood'', Str (mood_categories ! km)), (''theme'', Str (theme_categories ! kt)),
             (''mood_confidence'', Float (cosine_similarity env x (mood_norm ! km))),
             (''theme_confidence'', Float (cosine_similarity env x (theme_norm ! kt)))]"
    using km kt km8 kt10 mn(2) tn(2)
    by (simp add: mood_theme_def fst_io call_text_features_def mn(1) tn(1)
        cosine_similarity_rows_single py_index_def categories_length)
  moreover have "\<forall>j < 8. cosine_similarity env x (mood_norm ! j) \<le> cosine_similarity env x (mood_norm ! km)"
    using mmx km8 mn(2) by simp
  moreover have "\<forall>j < km. cosine_similarity env x (mood_norm ! j) < cosine_similarity env x (mood_norm ! km)"
    using mfs km8 mn(2) by simp
  moreover have "\<forall>j < 10. cosine_similarity env x (theme_norm ! j) \<le> cosine_similarity env x (theme_norm ! kt)"
    using tmx kt10 tn(2) by simp
  moreover have "\<forall>j < kt. cosine_similarity env x (theme_norm ! j) < cosine_similarity env x (theme_norm ! kt)"
    using tfs kt10 tn(2) by simp
  ultimately show ?thesis using km8 kt10 by blast
qed

lemma classify_text_first_max:
  assumes x: "get_text_features env [t] = Inr [x]"
    and mn: "get_text_features env mood_categories = Inr mood_norm" "length mood_norm = 8"
    and tn: "get_text_features env theme_categories = Inr theme_norm" "length theme_norm = 10"
  shows "\<exists>km < 8. \<exists>kt < 10.
      fst (classify_text env t) =
        Inr [(''type'', Str (lit ''text'')), (''content'', Str t),
             (''mood'', Str (mood_categories ! km)), (''theme'', Str (theme_categories ! kt)),
             (''mood_confidence'', Float (cosine_similarity env x (mood_norm ! km))),
             (''theme_confidence'', Float (cosine_similarity env x (theme_norm ! kt)))] \<and>
      (\<forall>j < 8. cosine_similarity env x (mood_norm ! j) \<le> cosine_similarity env x (mood_norm ! km)) \<and>
      (\<forall>j < km. cosine_similarity env x (mood_norm ! j) < cosine_similarity env x (mood_norm ! km)) \<and>
      (\<forall>j < 10. cosine_similarity env x (theme_norm ! j) \<le> cosine_similarity env x (theme_norm ! kt)) \<and>
      (\<forall>j < kt. cosine_similarity env x (theme_norm ! j) < cosine_similarity env x (theme_norm ! kt))"
proof -
  from mood_theme_first_max [OF mn tn, of x] obtain km kt where
    "km < 8" "kt < 10"
    "fst (mood_theme env [x]) =
        Inr [(''mood'', Str (mood_categories ! km)), (''theme'', Str (theme_categories ! kt)),
             (''mood_confidence'', Float (cosine_similarity env x (mood_norm ! km))),
             (''theme_confidence'', Float (cosine_similarity env x (theme_norm ! kt)))]"
    "\<forall>j < 8. cosine_similarity env x (mood_norm ! j) \<le> cosine_similarity env x (mood_norm ! km)"
    "\<forall>j < km. cosine_similarity env x (mood_norm ! j) < cosine_similarity env x (mood_norm ! km)"
    "\<forall>j < 10. cosine_similarity env x (theme_norm ! j) \<le> cosine_similarity env x (theme_norm ! kt)"
    "\<forall>j < kt. cosine_similarity env x (theme_norm ! j) < cosine_similarity env x (theme_norm ! kt)"
    by blast
  moreover from this(3) have "fst (classify_text env t) =
        Inr [(''type'', Str (lit ''text'')), (''content'', Str t),
             (''mood'', Str (mood_categories ! km)), (''theme'', Str (theme_categories ! kt)),
             (''mood_confidence'', Float (cosine_similarity env x (mood_norm ! km))),
             (''theme_confidence'', Float (cosine_similarity env x (theme_norm ! kt)))]"
    by (simp add: classify_text_result x)
  ultimately show ?thesis by blast
qed

lemma classify_image_first_max:
  assumes x: "image_result env url = Inr x"
    and mn: "get_text_features env mood_categories = Inr mood_norm" "length mood_norm = 8"
    and tn: "get_text_features env theme_categories = Inr theme_norm" "length theme_norm = 10"
  shows "\<exists>km < 8. \<exists>kt < 10.
      fst (classify_image env url) =
        Inr [(''type'', Str (lit ''image'')), (''content'', Str url),
             (''mood'', Str (mood_categories ! km)), (''theme'', Str (theme_categories ! kt)),
             (''mood_confidence'', Float (cosine_similarity env x (mood_norm ! km))),
             (''theme_confidence'', Float (cosine_similarity env x (theme_norm ! kt)))] \<and>
      (\<forall>j < 8. cosine_similarity env x (mood_norm ! j) \<le> cosine_similarity env x (mood_norm ! km)) \<and>
      (\<forall>j < km. cosine_similarity env x (mood_norm ! j) < cosine_similarity env x (mood_norm ! km)) \<and>
      (\<forall>j < 10. cosine_similarity env x (theme_norm ! j) \<le> cosine_similarity env x (theme_norm ! kt)) \<and>
      (\<forall>j < kt. cosine_similarity env x (theme_norm ! j) < cosine_similarity env x (theme_norm ! kt))"
proof -
  from mood_theme_first_max [OF mn tn, of x] obtain km kt where
    "km < 8" "kt < 10"
    "fst (mood_theme env [x]) =
        Inr [(''mood'', Str (mood_categories ! km)), (''theme'', Str (theme_categories ! kt)),
             (''mood_confidence'', Float (cosine_similarity env x (mood_norm ! km))),
             (''theme_confidence'', Float (cosine_similarity env x (theme_norm ! kt)))]"
    "\<forall>j < 8. cosine_similarity env x (mood_norm ! j) \<le> cosine_similarity env x (mood_norm ! km)"
    "\<forall>j < km. cosine_similarity env x (mood_norm ! j) < cosine_similarity env x (mood_norm ! km)"
    "\<forall>j < 10. cosine_similarity env x (theme_norm ! j) \<le> cosine_similarity env x (theme_norm ! kt)"
    "\<forall>j < kt. cosine_similarity env x (theme_norm ! j) < cosine_similarity env x (theme_norm ! kt)"
    by blast
  moreover from this(3) have "fst (classify_image env url) =
        Inr [(''type'', Str (lit ''image'')), (''content'', Str url),
             (''mood'', Str (mood_categories ! km)), (''theme'', Str (theme_categories ! kt)),
             (''mood_confidence'', Float (cosine_similarity env x (mood_norm ! km))),
             (''theme_confidence'', Float (cosine_similarity env x (theme_norm ! kt)))]"
    by (simp add: classify_image_result x)
  ultimately show ?thesis by blast
qed

lemma success_record_keys:
  assumes "\<exists>ty c x_norm mood_norm theme_norm ms ts km kt.
        r = [(''type'', Str ty), (''content'', Str c),
             (''mood'', Str (mood_categories ! km)), (''theme'', Str (theme_categories ! kt)),
             (''mood_confidence'', Float (ms ! km)), (''theme_confidence'', Float (ts ! kt))] \<and>
        km < 8 \<and> kt < 10 \<and>
        get_text_features env mood_categories = Inr mood_norm \<and>
        get_text_features env theme_categories = Inr theme_norm \<and>
        cosine_similarity_rows env x_norm mood_norm = Inr ms \<and> argmax ms = Inr km \<and>
        cosine_similarity_rows env x_norm theme_norm = Inr ts \<and> argmax ts = Inr kt"
  shows "map fst r =
      [''type'', ''content'', ''mood'', ''theme'', ''mood_confidence'', ''theme_confidence''] \<and>
    (\<exists>m \<in> set mood_categories. map_of r ''mood'' = Some (Str m)) \<and>
    (\<exists>th \<in> set theme_categories. map_of r ''theme'' = Some (Str th))"
proof -
  from assms obtain ty c km kt mc tc where
    r: "r = [(''type'', Str ty), (''content'', Str c),
             (''mood'', Str (mood_categories ! km)), (''theme'', Str (theme_categories ! kt)),
             (''mood_confidence'', Float mc), (''theme_confidence'', Float tc)]"
    and k: "km < 8" "kt < 10"
    by blast
  from k have "mood_categories ! km \<in> set mood_categories"
    "theme_categories ! kt \<in> set theme_categories"
    by (simp_all add: categories_length)
  then show ?thesis
    by (simp add: r)
qed


lemma less_8_cases: "k < 8 \<Longrightarrow> k = 0 \<or> k = 1 \<or> k = 2 \<or> k = 3 \<or> k = 4 \<or> k = 5 \<or> k = 6 \<or> k = (7::nat)"
  by arith

lemma less_10_cases:
  "k < 10 \<Longrightarrow> k = 0 \<or> k = 1 \<or> k = 2 \<or> k = 3 \<or> k = 4 \<or> k = 5 \<or> k = 6 \<or> k = 7 \<or> k = 8 \<or> k = (9::nat)"
  by arith

lemma example_mood_norm:
  "get_text_features example_env mood_categories =
     Inr [5 / 10, 3 / 10, 9 / 10, 4 / 10, 10 / 10, 8 / 10, 10 / 10, 8 / 10]"
  by (simp add: example_env_def mood_categories_def lit_def)

lemma example_theme_norm:
  "get_text_features example_env theme_categories =
     Inr [6 / 10, 5 / 10, 10 / 10, 3 / 10, 4 / 10, 6 / 10, 7 / 10, 6 / 10, 8 / 10, 9 / 10]"
  by (simp add: example_env_def theme_categories_def lit_def)

section \<open>Handlers in two environments\<close>




lemma same_run_pure: "same_outcome R r1 r2 \<Longrightarrow> same_run R (pure_io r1) (pure_io r2)"
  by (simp add: same_run_def pure_io_def)
























section \<open>Properties of \<open>/group-threshold\<close>\<close>

text \<open>
  C2: when no text of the request has a character that is not whitespace (the empty list
  of texts included), the handler returns exactly the empty list, whatever the images and
  whatever the environment, and it has made no external call: no text was embedded, no
  image was fetched or embedded.
\<close>

theorem group_no_text_returns_empty:
  "\<not> (\<exists>t \<in> set texts. \<exists>c \<in> set t. \<not> isspace c) \<Longrightarrow>
     group_by_similarity env texts image_urls = (Inr [], [])"
  by (auto simp: group_by_similarity_def return_io_def list_ex_iff truthy_strip_iff)

theorem group_no_text_returns_empty_witness:
  "group_by_similarity example_env [[32, 9], []] [lit ''a.png''] = (Inr [], [])"
  using group_no_text_returns_empty [of "[[32, 9], []]" example_env "[lit ''a.png'']"]
  by (simp add: isspace_def)

text \<open>
  C1: let the texts that are not blank be embedded, one row per text, and let the image
  loop leave the lists \<open>image_embeddings\<close> and \<open>valid_image_urls\<close>. Then the handler
  returns, and for every row \<open>i\<close> of the text embeddings and every embedded image \<open>j\<close>,
  the URL of image \<open>j\<close> is in the matches of entry \<open>i\<close> exactly when the similarity of
  row \<open>i\<close> and the embedding of image \<open>j\<close> is strictly above \<open>1 - threshold\<close>, which
  is 0.7, the threshold being 0.3. Similarities are read as real numbers.
\<close>

theorem group_match_iff_above_cutoff:
  assumes tf: "get_text_features env [t \<leftarrow> texts. truthy (strip t)] = Inr text_embeddings"
    and shape: "length text_embeddings = length [t \<leftarrow> texts. truthy (strip t)]"
    and im: "fst (embed_images env image_urls ([], [])) = Inr (image_embeddings, valid_image_urls)"
    and i: "i < length text_embeddings"
    and j: "j < length image_embeddings"
  shows "\<exists>grouped ms.
      fst (group_by_similarity env texts image_urls) = Inr grouped \<and>
      i < length grouped \<and>
      grouped ! i =
        [(''text'', Str ([t \<leftarrow> texts. truthy (strip t)] ! i)), (''matches'', StrList ms)] \<and>
      (valid_image_urls ! j \<in> set ms \<longleftrightarrow>
         cosine_similarity env (text_embeddings ! i) (image_embeddings ! j) > 1 - threshold) \<and>
      1 - threshold = 7 / 10"
proof -
  let ?valid = "[t \<leftarrow> texts. truthy (strip t)]"
  let ?ms = "[u \<leftarrow> image_urls. embeds env u \<and>
      cosine_similarity env (text_embeddings ! i) (embedding_of env u) > 7 / 10]"
  note lists = embed_images_lists [OF im]
  from i shape have "?valid \<noteq> []" by auto
  then have ne: "\<exists>t \<in> set texts. truthy (strip t)"
    by (auto simp: filter_empty_conv)
  have res: "fst (group_by_similarity env texts image_urls) =
     Inr (map (\<lambda>(t, t_vec).
            [(''text'', Str t),
             (''matches'',
              StrList [u \<leftarrow> image_urls.
                 embeds env u \<and> cosine_similarity env t_vec (embedding_of env u) > 7 / 10])])
          (zip ?valid text_embeddings))"
    using ne tf shape by (intro group_by_similarity_result) auto
  from j lists have mem: "valid_image_urls ! j \<in> set (filter (embeds env) image_urls)"
    by (metis length_map nth_mem)
  from j lists have emb: "image_embeddings ! j = embedding_of env (valid_image_urls ! j)"
    by simp
  have "valid_image_urls ! j \<in> set ?ms \<longleftrightarrow>
      cosine_similarity env (text_embeddings ! i) (image_embeddings ! j) > 1 - threshold"
    using mem by (auto simp: emb threshold_def)
  moreover have "map (\<lambda>(t, t_vec).
            [(''text'', Str t),
             (''matches'',
              StrList [u \<leftarrow> image_urls.
                 embeds env u \<and> cosine_similarity env t_vec (embedding_of env u) > 7 / 10])])
          (zip ?valid text_embeddings) ! i = [(''text'', Str (?valid ! i)), (''matches'', StrList ?ms)]"
    using i shape by simp
  moreover have "i < length (map (\<lambda>(t, t_vec).
            [(''text'', Str t),
             (''matches'',
              StrList [u \<leftarrow> image_urls.
                 embeds env u \<and> cosine_similarity env t_vec (embedding_of env u) > 7 / 10])])
          (zip ?valid text_embeddings))"
    using i shape by simp
  moreover have "1 - threshold = 7 / 10" by (simp add: threshold_def)
  ultimately show ?thesis using res by blast
qed

theorem group_match_iff_above_cutoff_witness:
  "\<exists>grouped ms.
      fst (group_by_similarity example_env [lit ''ab'', [32], lit ''abcdefg'']
             [lit ''xy'', [], lit ''bad'', lit ''u.png'']) = Inr grouped \<and>
      1 < length grouped \<and>
      grouped ! 1 = [(''text'', Str (lit ''abcdefg'')), (''matches'', StrList ms)] \<and>
      lit ''xy'' \<notin> set ms \<and>
      cosine_similarity example_env (7 / 10) (2 / 10) = 1 / 2"
proof -
  let ?texts = "[lit ''ab'', [32], lit ''abcdefg'']"
  let ?urls = "[lit ''xy'', [], lit ''bad'', lit ''u.png'']"
  have tf: "get_text_features example_env [t \<leftarrow> ?texts. truthy (strip t)] = Inr [2 / 10, 7 / 10]"
    by (simp add: example_simps)
  have shape: "length [2 / 10, 7 / 10 :: real] = length [t \<leftarrow> ?texts. truthy (strip t)]"
    by (simp add: example_simps)
  have im: "fst (embed_images example_env ?urls ([], [])) =
      Inr ([2 / 10, 5 / 10], [lit ''xy'', lit ''u.png''])"
    by (simp add: example_simps)
  have c: "cosine_similarity example_env (7 / 10) (2 / 10) = 1 / 2"
    by (simp add: example_env_def)
  have v: "[t \<leftarrow> ?texts. truthy (strip t)] ! 1 = lit ''abcdefg''"
    by (simp add: example_simps)
  from group_match_iff_above_cutoff [OF tf shape im, of 1 0]
  obtain grouped ms where
    g: "fst (group_by_similarity example_env ?texts ?urls) = Inr grouped" "1 < length grouped"
      "grouped ! 1 = [(''text'', Str ([t \<leftarrow> ?texts. truthy (strip t)] ! 1)), (''matches'', StrList ms)]"
    and m: "[lit ''xy'', lit ''u.png''] ! 0 \<in> set ms \<longleftrightarrow>
      cosine_similarity example_env ([2 / 10, 7 / 10] ! 1) ([2 / 10, 5 / 10] ! 0) > 1 - threshold"
    and t: "1 - threshold = 7 / 10"
    by auto
  from m have "lit ''xy'' \<notin> set ms"
    unfolding t by (simp add: example_env_def)
  with g c show ?thesis
    unfolding v by blast
qed

text \<open>
  C4: when some text is not blank and the texts that are not blank are embedded, one row
  per text, the handler returns one entry per text that is not blank, in the order of the
  request. An entry has the two items \<open>text\<close> and \<open>matches\<close> and nothing else, so no
  error is reported in it. Its matches are the URLs of the images above the cut-off, in the
  order in which the image loop appended them to \<open>valid_image_urls\<close>; that list holds the
  URLs of the request that are not blank and were fetched and embedded, so a URL whose
  fetch or embedding fails is in no list of matches.
\<close>

theorem group_entries_in_order:
  assumes ne: "\<exists>t \<in> set texts. \<exists>c \<in> set t. \<not> isspace c"
    and tf: "get_text_features env [t \<leftarrow> texts. truthy (strip t)] = Inr text_embeddings"
    and shape: "length text_embeddings = length [t \<leftarrow> texts. truthy (strip t)]"
    and im: "fst (embed_images env image_urls ([], [])) = Inr (image_embeddings, valid_image_urls)"
  shows "\<exists>grouped.
      fst (group_by_similarity env texts image_urls) = Inr grouped \<and>
      length grouped = length [t \<leftarrow> texts. truthy (strip t)] \<and>
      valid_image_urls = [u \<leftarrow> image_urls. embeds env u] \<and>
      (\<forall>i < length grouped. \<exists>ms.
          grouped ! i =
            [(''text'', Str ([t \<leftarrow> texts. truthy (strip t)] ! i)), (''matches'', StrList ms)] \<and>
          ms = map snd (filter (\<lambda>(v, u). cosine_similarity env (text_embeddings ! i) v > 1 - threshold)
                  (zip image_embeddings valid_image_urls)) \<and>
          (\<forall>u \<in> set image_urls. \<not> embeds env u \<longrightarrow> u \<notin> set ms))"
proof -
  let ?valid = "[t \<leftarrow> texts. truthy (strip t)]"
  let ?entry = "\<lambda>(t, t_vec).
            [(''text'', Str t),
             (''matches'',
              StrList [u \<leftarrow> image_urls.
                 embeds env u \<and> cosine_similarity env t_vec (embedding_of env u) > 7 / 10])]"
  note lists = embed_images_lists [OF im]
  from ne have ne': "\<exists>t \<in> set texts. truthy (strip t)"
    by (simp add: truthy_strip_iff)
  have res: "fst (group_by_similarity env texts image_urls) = Inr (map ?entry (zip ?valid text_embeddings))"
    using ne' tf shape by (intro group_by_similarity_result) auto
  have ms: "map snd (filter (\<lambda>(v, u). cosine_similarity env t_vec v > 1 - threshold)
                  (zip image_embeddings valid_image_urls)) =
      [u \<leftarrow> image_urls. embeds env u \<and> cosine_similarity env t_vec (embedding_of env u) > 7 / 10]" for t_vec
  proof -
    have "map snd (filter (\<lambda>(v, u). cosine_similarity env t_vec v > 1 - threshold)
                  (zip image_embeddings valid_image_urls)) =
        filter (\<lambda>u. cosine_similarity env t_vec (embedding_of env u) > 1 - threshold)
          (filter (embeds env) image_urls)"
      unfolding lists(2) unfolding lists(1) by (rule map_snd_filter_zip_map)
    also have "\<dots> = [u \<leftarrow> image_urls.
        embeds env u \<and> cosine_similarity env t_vec (embedding_of env u) > 7 / 10]"
      by (simp add: threshold_def conj_commute)
    finally show ?thesis .
  qed
  let ?G = "map ?entry (zip ?valid text_embeddings)"
  have ent: "\<exists>ms. ?G ! i = [(''text'', Str (?valid ! i)), (''matches'', StrList ms)] \<and>
          ms = map snd (filter (\<lambda>(v, u). cosine_similarity env (text_embeddings ! i) v > 1 - threshold)
                  (zip image_embeddings valid_image_urls)) \<and>
          (\<forall>u \<in> set image_urls. \<not> embeds env u \<longrightarrow> u \<notin> set ms)"
    if "i < length ?G" for i
  proof -
    let ?ms = "[u \<leftarrow> image_urls. embeds env u \<and>
      cosine_similarity env (text_embeddings ! i) (embedding_of env u) > 7 / 10]"
    have "?G ! i = [(''text'', Str (?valid ! i)), (''matches'', StrList ?ms)]"
      using that shape by simp
    moreover have "?ms = map snd (filter (\<lambda>(v, u).
        cosine_similarity env (text_embeddings ! i) v > 1 - threshold)
          (zip image_embeddings valid_image_urls))"
      by (rule ms [symmetric])
    moreover have "\<forall>u \<in> set image_urls. \<not> embeds env u \<longrightarrow> u \<notin> set ?ms"
      by simp
    ultimately show ?thesis by blast
  qed
  show ?thesis
  proof (intro exI [of _ ?G] conjI)
    show "fst (group_by_similarity env texts image_urls) = Inr ?G" by (rule res)
    show "length ?G = length ?valid" using shape by simp
    show "valid_image_urls = [u \<leftarrow> image_urls. embeds env u]" by (rule lists(1))
    show "\<forall>i < length ?G. \<exists>ms.
          ?G ! i = [(''text'', Str (?valid ! i)), (''matches'', StrList ms)] \<and>
          ms = map snd (filter (\<lambda>(v, u). cosine_similarity env (text_embeddings ! i) v > 1 - threshold)
                  (zip image_embeddings valid_image_urls)) \<and>
          (\<forall>u \<in> set image_urls. \<not> embeds env u \<longrightarrow> u \<notin> set ms)"
      using ent by blast
  qed
qed

theorem group_entries_in_order_witness:
  "fst (group_by_similarity example_env [lit ''ab'', [32], lit ''abcdefg'']
         [lit ''xy'', [], lit ''bad'', lit ''u.png'']) =
     Inr [[(''text'', Str (lit ''ab'')), (''matches'', StrList [lit ''xy''])],
          [(''text'', Str (lit ''abcdefg'')), (''matches'', StrList [lit ''u.png''])]]"
proof -
  let ?texts = "[lit ''ab'', [32], lit ''abcdefg'']"
  let ?urls = "[lit ''xy'', [], lit ''bad'', lit ''u.png'']"
  have ne: "\<exists>t \<in> set ?texts. \<exists>c \<in> set t. \<not> isspace c"
    by (simp add: lit_def isspace_def)
  have tf: "get_text_features example_env [t \<leftarrow> ?texts. truthy (strip t)] = Inr [2 / 10, 7 / 10]"
    by (simp add: example_simps)
  have shape: "length [2 / 10, 7 / 10 :: real] = length [t \<leftarrow> ?texts. truthy (strip t)]"
    by (simp add: example_simps)
  have im: "fst (embed_images example_env ?urls ([], [])) =
      Inr ([2 / 10, 5 / 10], [lit ''xy'', lit ''u.png''])"
    by (simp add: example_simps)
  have v: "[t \<leftarrow> ?texts. truthy (strip t)] = [lit ''ab'', lit ''abcdefg'']"
    by (simp add: example_simps)
  from group_entries_in_order [OF ne tf shape im]
  obtain grouped where g: "fst (group_by_similarity example_env ?texts ?urls) = Inr grouped"
    and l: "length grouped = length [t \<leftarrow> ?texts. truthy (strip t)]"
    and e: "\<forall>i < length grouped. \<exists>ms.
          grouped ! i =
            [(''text'', Str ([t \<leftarrow> ?texts. truthy (strip t)] ! i)), (''matches'', StrList ms)] \<and>
          ms = map snd (filter (\<lambda>(v, u).
                 cosine_similarity example_env ([2 / 10, 7 / 10] ! i) v > 1 - threshold)
                  (zip [2 / 10, 5 / 10] [lit ''xy'', lit ''u.png''])) \<and>
          (\<forall>u \<in> set ?urls. \<not> embeds example_env u \<longrightarrow> u \<notin> set ms)"
    by blast
  from l have l2: "length grouped = 2"
    unfolding v by simp
  from e l2 have "grouped ! 0 = [(''text'', Str (lit ''ab'')), (''matches'', StrList [lit ''xy''])]"
    unfolding v by (auto simp: example_env_def threshold_def)
  moreover from e l2 have
    "grouped ! 1 = [(''text'', Str (lit ''abcdefg'')), (''matches'', StrList [lit ''u.png''])]"
    unfolding v by (auto simp: example_env_def threshold_def)
  ultimately have "grouped =
     [[(''text'', Str (lit ''ab'')), (''matches'', StrList [lit ''xy''])],
      [(''text'', Str (lit ''abcdefg'')), (''matches'', StrList [lit ''u.png''])]]"
    using list_of_length_two [OF l2] by simp
  with g show ?thesis by simp
qed

text \<open>
  C8: when some text is not blank, the texts that are not blank are embedded, one row per
  text, and no URL of the request is fetched and embedded (the list of images is empty,
  or every URL is blank or fails), the handler returns one entry per text that is not
  blank, and the matches of every entry are the empty list.
\<close>

theorem group_no_image_no_match:
  assumes ne: "\<exists>t \<in> set texts. \<exists>c \<in> set t. \<not> isspace c"
    and tf: "get_text_features env [t \<leftarrow> texts. truthy (strip t)] = Inr text_embeddings"
    and shape: "length text_embeddings = length [t \<leftarrow> texts. truthy (strip t)]"
    and none: "\<forall>u \<in> set image_urls. \<not> embeds env u"
  shows "\<exists>grouped.
      fst (group_by_similarity env texts image_urls) = Inr grouped \<and>
      length grouped = length [t \<leftarrow> texts. truthy (strip t)] \<and>
      grouped \<noteq> [] \<and>
      (\<forall>g \<in> set grouped. map_of g ''matches'' = Some (StrList []))"
proof -
  let ?valid = "[t \<leftarrow> texts. truthy (strip t)]"
  from ne have ne': "\<exists>t \<in> set texts. truthy (strip t)"
    by (simp add: truthy_strip_iff)
  then have v: "?valid \<noteq> []"
    by (simp add: filter_empty_conv)
  from none have e: "[u \<leftarrow> image_urls. embeds env u \<and> P u] = []" for P
    by (simp add: filter_empty_conv)
  have "fst (group_by_similarity env texts image_urls) =
      Inr (map (\<lambda>(t, t_vec). [(''text'', Str t), (''matches'', StrList [])])
             (zip ?valid text_embeddings))"
    using group_by_similarity_result [of texts env text_embeddings image_urls] ne' tf shape
    by (simp add: e)
  moreover have "zip ?valid text_embeddings \<noteq> []"
    using v shape by (cases ?valid; cases text_embeddings) auto
  ultimately show ?thesis
    using shape by auto
qed

theorem group_no_image_no_match_witness:
  "\<exists>grouped.
      fst (group_by_similarity example_env [lit ''ab''] [lit ''bad'', []]) = Inr grouped \<and>
      length grouped = 1 \<and>
      map_of (grouped ! 0) ''matches'' = Some (StrList [])"
proof -
  let ?texts = "[lit ''ab'']"
  let ?urls = "[lit ''bad'', []]"
  have ne: "\<exists>t \<in> set ?texts. \<exists>c \<in> set t. \<not> isspace c"
    by (simp add: lit_def isspace_def)
  have tf: "get_text_features example_env [t \<leftarrow> ?texts. truthy (strip t)] = Inr [2 / 10]"
    by (simp add: example_simps)
  have shape: "length [2 / 10 :: real] = length [t \<leftarrow> ?texts. truthy (strip t)]"
    by (simp add: example_simps)
  have none: "\<forall>u \<in> set ?urls. \<not> embeds example_env u"
    by (simp add: embeds_def image_result_eq example_simps)
  from group_no_image_no_match [OF ne tf shape none]
  obtain grouped where g: "fst (group_by_similarity example_env ?texts ?urls) = Inr grouped"
    and l: "length grouped = length [t \<leftarrow> ?texts. truthy (strip t)]"
    and e: "\<forall>g \<in> set grouped. map_of g ''matches'' = Some (StrList [])"
    by blast
  from l have l1: "length grouped = 1"
    by (simp add: example_simps)
  with e have "map_of (grouped ! 0) ''matches'' = Some (StrList [])"
    by (cases grouped) auto
  with g l1 show ?thesis by blast
qed

text \<open>
  C10: the image loop leaves as many embeddings as URLs, and the \<open>j\<close>-th embedding is
  what fetching and embedding the \<open>j\<close>-th URL of \<open>valid_image_urls\<close> gives. When the
  text encoder returns one row per text that is not blank, the handler returns (so no
  subscript of the comparison loop is out of range), entry \<open>i\<close> carries the text
  \<open>valid_texts[i]\<close>, and its matches are the URLs \<open>valid_image_urls[j]\<close> for the
  positions \<open>j\<close> at which row \<open>i\<close> and embedding \<open>j\<close> are above the cut-off.
\<close>

theorem group_parallel_lists_aligned:
  assumes tf: "get_text_features env [t \<leftarrow> texts. truthy (strip t)] = Inr text_embeddings"
    and shape: "length text_embeddings = length [t \<leftarrow> texts. truthy (strip t)]"
    and im: "fst (embed_images env image_urls ([], [])) = Inr (image_embeddings, valid_image_urls)"
  shows "length image_embeddings = length valid_image_urls \<and>
    (\<forall>j < length valid_image_urls.
        image_result env (valid_image_urls ! j) = Inr (image_embeddings ! j)) \<and>
    (\<exists>grouped.
        fst (group_by_similarity env texts image_urls) = Inr grouped \<and>
        length grouped = length text_embeddings \<and>
        (\<forall>i < length text_embeddings.
            grouped ! i =
              [(''text'', Str ([t \<leftarrow> texts. truthy (strip t)] ! i)),
               (''matches'',
                StrList [valid_image_urls ! j. j \<leftarrow> [0..<length image_embeddings],
                  cosine_similarity env (text_embeddings ! i) (image_embeddings ! j)
                    > 1 - threshold])]))"
proof -
  let ?valid = "[t \<leftarrow> texts. truthy (strip t)]"
  let ?entry = "\<lambda>(t, t_vec).
            [(''text'', Str t),
             (''matches'',
              StrList [u \<leftarrow> image_urls.
                 embeds env u \<and> cosine_similarity env t_vec (embedding_of env u) > 7 / 10])]"
  note lists = embed_images_lists [OF im]
  have len: "length image_embeddings = length valid_image_urls"
    by (simp add: lists(2))
  have al: "image_result env (valid_image_urls ! j) = Inr (image_embeddings ! j)"
    if "j < length valid_image_urls" for j
  proof -
    from that have "valid_image_urls ! j \<in> set (filter (embeds env) image_urls)"
      using lists(1) nth_mem by metis
    then have "embeds env (valid_image_urls ! j)" by simp
    then show ?thesis
      using that by (simp add: embeds_image_result lists(2))
  qed
  have ms: "[valid_image_urls ! j. j \<leftarrow> [0..<length image_embeddings],
        cosine_similarity env t_vec (image_embeddings ! j) > 1 - threshold] =
      [u \<leftarrow> image_urls. embeds env u \<and> cosine_similarity env t_vec (embedding_of env u) > 7 / 10]" for t_vec
    using comprehension_by_index [OF len, of "\<lambda>v. cosine_similarity env t_vec v > 1 - threshold"]
    by (simp add: lists(2) zip_map_filter threshold_def) (simp add: lists(1) conj_commute)
  have "\<exists>grouped.
        fst (group_by_similarity env texts image_urls) = Inr grouped \<and>
        length grouped = length text_embeddings \<and>
        (\<forall>i < length text_embeddings.
            grouped ! i =
              [(''text'', Str (?valid ! i)),
               (''matches'',
                StrList [valid_image_urls ! j. j \<leftarrow> [0..<length image_embeddings],
                  cosine_similarity env (text_embeddings ! i) (image_embeddings ! j)
                    > 1 - threshold])])"
  proof (cases "\<exists>t \<in> set texts. truthy (strip t)")
    case True
    then have "fst (group_by_similarity env texts image_urls) =
        Inr (map ?entry (zip ?valid text_embeddings))"
      using tf shape by (intro group_by_similarity_result) auto
    then show ?thesis
      using shape by (simp add: ms)
  next
    case False
    then have "?valid = []" by (simp add: filter_empty_conv)
    with shape have "text_embeddings = []" by simp
    then show ?thesis
      using group_by_similarity_no_text [OF False, of env image_urls] by simp
  qed
  with len al show ?thesis by blast
qed

theorem group_parallel_lists_aligned_witness:
  "image_result example_env (lit ''u.png'') = Inr (5 / 10) \<and>
   (\<exists>grouped.
      fst (group_by_similarity example_env [lit ''ab'', [32], lit ''abcdefg'']
             [lit ''xy'', [], lit ''bad'', lit ''u.png'']) = Inr grouped \<and>
      length grouped = 2 \<and>
      grouped ! 1 = [(''text'', Str (lit ''abcdefg'')), (''matches'', StrList [lit ''u.png''])])"
proof -
  let ?texts = "[lit ''ab'', [32], lit ''abcdefg'']"
  let ?urls = "[lit ''xy'', [], lit ''bad'', lit ''u.png'']"
  have tf: "get_text_features example_env [t \<leftarrow> ?texts. truthy (strip t)] = Inr [2 / 10, 7 / 10]"
    by (simp add: example_simps)
  have shape: "length [2 / 10, 7 / 10 :: real] = length [t \<leftarrow> ?texts. truthy (strip t)]"
    by (simp add: example_simps)
  have im: "fst (embed_images example_env ?urls ([], [])) =
      Inr ([2 / 10, 5 / 10], [lit ''xy'', lit ''u.png''])"
    by (simp add: example_simps)
  have v: "[t \<leftarrow> ?texts. truthy (strip t)] = [lit ''ab'', lit ''abcdefg'']"
    by (simp add: example_simps)
  from group_parallel_lists_aligned [OF tf shape im]
  obtain grouped where
    a: "\<forall>j < length [lit ''xy'', lit ''u.png''].
        image_result example_env ([lit ''xy'', lit ''u.png''] ! j) = Inr ([2 / 10, 5 / 10] ! j)"
    and g: "fst (group_by_similarity example_env ?texts ?urls) = Inr grouped"
    and l: "length grouped = length [2 / 10, 7 / 10 :: real]"
    and e: "\<forall>i < length [2 / 10, 7 / 10 :: real].
            grouped ! i =
              [(''text'', Str ([t \<leftarrow> ?texts. truthy (strip t)] ! i)),
               (''matches'',
                StrList [[lit ''xy'', lit ''u.png''] ! j.
                  j \<leftarrow> [0..<length [2 / 10, 5 / 10 :: real]],
                  cosine_similarity example_env ([2 / 10, 7 / 10] ! i) ([2 / 10, 5 / 10] ! j)
                    > 1 - threshold])]"
    by blast
  from a have "image_result example_env (lit ''u.png'') = Inr (5 / 10)"
    by (auto dest: spec [of _ 1])
  moreover from e have
    "grouped ! 1 = [(''text'', Str (lit ''abcdefg'')), (''matches'', StrList [lit ''u.png''])]"
    unfolding v by (auto simp: example_env_def threshold_def upt_rec dest!: spec [of _ 1])
  ultimately show ?thesis using g l by auto
qed

section \<open>Properties of \<open>/classify-art-style\<close>\<close>

text \<open>
  C3: the handler returns one record per URL that is not blank. In every record the
  \<open>style\<close> is one of the 14 labels exactly when the record has no \<open>error\<close> item, and
  is \<open>unknown\<close> exactly when it has one. When the image of the \<open>i\<close>-th such URL is
  fetched and embedded and the 14 labels are embedded, one row per label, record \<open>i\<close> is
  the success record of a label \<open>k\<close> whose score no label exceeds and which every
  earlier label is strictly below: the first maximal score. Its confidence is that score.
\<close>

theorem art_style_label_or_unknown:
  "\<exists>results.
     fst (classify_art_style env texts images) = Inr \<lparr>classifications = results\<rparr> \<and>
     length results = length [u \<leftarrow> images. truthy (strip u)] \<and>
     length art_styles = 14 \<and>
     (\<forall>r \<in> set results. \<exists>s.
         map_of r ''style'' = Some (Str s) \<and>
         (s \<in> set art_styles \<longleftrightarrow> \<not> has_key r ''error'') \<and>
         (s = lit ''unknown'' \<longleftrightarrow> has_key r ''error'')) \<and>
     (\<forall>i < length results. \<forall>image_norm style_norm.
         image_result env ([u \<leftarrow> images. truthy (strip u)] ! i) = Inr image_norm \<and>
         get_text_features env art_styles = Inr style_norm \<and> length style_norm = 14 \<longrightarrow>
         (\<exists>k < 14.
            results ! i =
              [(''image'', Str ([u \<leftarrow> images. truthy (strip u)] ! i)),
               (''style'', Str (art_styles ! k)),
               (''confidence'', Float (cosine_similarity env image_norm (style_norm ! k)))] \<and>
            (\<forall>j < 14. cosine_similarity env image_norm (style_norm ! j)
                        \<le> cosine_similarity env image_norm (style_norm ! k)) \<and>
            (\<forall>j < k. cosine_similarity env image_norm (style_norm ! j)
                       < cosine_similarity env image_norm (style_norm ! k))))"
proof -
  let ?valid = "[u \<leftarrow> images. truthy (strip u)]"
  from classify_art_style_result [of env texts images] obtain results where
    res: "fst (classify_art_style env texts images) = Inr \<lparr>classifications = results\<rparr>"
    and m: "map Inr results = map (\<lambda>u. fst (classify_image_style env u)) ?valid"
    by blast
  from m have len: "length results = length ?valid"
    by (metis length_map)
  have nth: "fst (classify_image_style env (?valid ! i)) = Inr (results ! i)"
    if "i < length results" for i
    using that len m by (metis nth_map)
  have shape: "\<exists>s. map_of r ''style'' = Some (Str s) \<and>
         (s \<in> set art_styles \<longleftrightarrow> \<not> has_key r ''error'') \<and>
         (s = lit ''unknown'' \<longleftrightarrow> has_key r ''error'')" if "r \<in> set results" for r
  proof -
    from that obtain i where "i < length results" "r = results ! i"
      by (auto simp: in_set_conv_nth)
    with nth show ?thesis
      by (auto intro: classify_image_style_shape)
  qed
  have best: "\<exists>k < 14.
            results ! i =
              [(''image'', Str (?valid ! i)), (''style'', Str (art_styles ! k)),
               (''confidence'', Float (cosine_similarity env image_norm (style_norm ! k)))] \<and>
            (\<forall>j < 14. cosine_similarity env image_norm (style_norm ! j)
                        \<le> cosine_similarity env image_norm (style_norm ! k)) \<and>
            (\<forall>j < k. cosine_similarity env image_norm (style_norm ! j)
                       < cosine_similarity env image_norm (style_norm ! k))"
    if "i < length results" "image_result env (?valid ! i) = Inr image_norm"
      "get_text_features env art_styles = Inr style_norm" "length style_norm = 14"
    for i image_norm style_norm
    using classify_image_style_argmax [OF that(2,3,4)] nth [OF that(1)] by simp
  show ?thesis
    using res len art_styles_length shape best by blast
qed

theorem art_style_label_or_unknown_witness:
  "\<exists>results.
     fst (classify_art_style example_env [] [lit ''pic.jpg'', lit ''bad'', []]) =
       Inr \<lparr>classifications = results\<rparr> \<and>
     length results = 2 \<and>
     results ! 0 =
       [(''image'', Str (lit ''pic.jpg'')), (''style'', Str (lit ''surreal'')),
        (''confidence'', Float 1)]"
proof -
  let ?images = "[lit ''pic.jpg'', lit ''bad'', []]"
  let ?sn = "[13 / 10, 8 / 10, 9 / 10, 10 / 10, 7 / 10, 7 / 10, 6 / 10, 9 / 10, 7 / 10, 6 / 10,
          13 / 10, 11 / 10, 7 / 10, 12 / 10 :: real]"
  let ?cos = "cosine_similarity example_env (7 / 10)"
  have v: "[u \<leftarrow> ?images. truthy (strip u)] = [lit ''pic.jpg'', lit ''bad'']"
    by (simp add: example_simps)
  have x: "image_result example_env ([lit ''pic.jpg'', lit ''bad''] ! 0) = Inr (7 / 10)"
    by (simp add: image_result_eq example_env_def lit_def)
  from art_style_label_or_unknown [of example_env "[]" ?images]
  obtain results where
    res: "fst (classify_art_style example_env [] ?images) = Inr \<lparr>classifications = results\<rparr>"
    and len: "length results = length [u \<leftarrow> ?images. truthy (strip u)]"
    and best: "\<forall>i < length results. \<forall>image_norm style_norm.
         image_result example_env ([u \<leftarrow> ?images. truthy (strip u)] ! i) = Inr image_norm \<and>
         get_text_features example_env art_styles = Inr style_norm \<and> length style_norm = 14 \<longrightarrow>
         (\<exists>k < 14.
            results ! i =
              [(''image'', Str ([u \<leftarrow> ?images. truthy (strip u)] ! i)),
               (''style'', Str (art_styles ! k)),
               (''confidence'', Float (cosine_similarity example_env image_norm (style_norm ! k)))] \<and>
            (\<forall>j < 14. cosine_similarity example_env image_norm (style_norm ! j)
                        \<le> cosine_similarity example_env image_norm (style_norm ! k)) \<and>
            (\<forall>j < k. cosine_similarity example_env image_norm (style_norm ! j)
                       < cosine_similarity example_env image_norm (style_norm ! k)))"
    by blast
  from len have l2: "length results = 2"
    unfolding v by simp
  have p: "0 < length results"
    using l2 by simp
  have q: "image_result example_env ([u \<leftarrow> ?images. truthy (strip u)] ! 0) = Inr (7 / 10) \<and>
      get_text_features example_env art_styles = Inr ?sn \<and> length ?sn = 14"
    using x example_style_norm unfolding v by simp
  from best [rule_format, OF p q] obtain k where k: "k < 14"
    and r0: "results ! 0 =
        [(''image'', Str ([u \<leftarrow> ?images. truthy (strip u)] ! 0)),
         (''style'', Str (art_styles ! k)),
         (''confidence'', Float (?cos (?sn ! k)))]"
    and mx: "\<forall>j < 14. ?cos (?sn ! j) \<le> ?cos (?sn ! k)"
    and fs: "\<forall>j < k. ?cos (?sn ! j) < ?cos (?sn ! k)"
    by blast
  have c4: "?cos (?sn ! 4) = 1"
    by (simp add: example_env_def)
  have le1: "?cos y \<le> 1" for y
    by (simp add: example_env_def)
  have "\<not> 4 < k"
  proof
    assume "4 < k"
    with fs have "?cos (?sn ! 4) < ?cos (?sn ! k)" by blast
    with c4 le1 [of "?sn ! k"] show False by simp
  qed
  then have "k = 0 \<or> k = 1 \<or> k = 2 \<or> k = 3 \<or> k = 4" by arith
  moreover from mx c4 have "1 \<le> ?cos (?sn ! k)" by (auto dest!: spec [of _ 4])
  ultimately have "k = 4"
    by (auto simp: example_env_def)
  with r0 have "results ! 0 =
       [(''image'', Str (lit ''pic.jpg'')), (''style'', Str (lit ''surreal'')),
        (''confidence'', Float 1)]"
    unfolding v by (simp add: art_styles_def example_env_def)
  with res l2 show ?thesis by blast
qed

text \<open>
  C6: when a URL that is not blank cannot be fetched, decoded or embedded, the handler
  still returns; the record of that URL has the URL, the style \<open>unknown\<close>, the confidence
  0.0 and an error message that is not empty, and it stands between the records of the
  URLs before it and the records of the URLs after it, which are the records these URLs
  get in requests of their own.
\<close>

theorem art_style_failure_record:
  assumes nonblank: "truthy (strip url)"
    and fails: "image_result env url = Inl e"
  shows "\<exists>rs_earlier rs_later.
      fst (classify_art_style env texts earlier) = Inr \<lparr>classifications = rs_earlier\<rparr> \<and>
      fst (classify_art_style env texts later) = Inr \<lparr>classifications = rs_later\<rparr> \<and>
      fst (classify_art_style env texts (earlier @ url # later)) =
        Inr \<lparr>classifications = rs_earlier @
           [(''image'', Str url), (''style'', Str (lit ''unknown'')), (''confidence'', Float 0),
            (''error'', Str (lit ''Failed to process image: '' @ str_exn env e))] # rs_later\<rparr> \<and>
      lit ''Failed to process image: '' @ str_exn env e \<noteq> []"
proof -
  let ?r = "[(''image'', Str url), (''style'', Str (lit ''unknown'')), (''confidence'', Float 0),
            (''error'', Str (lit ''Failed to process image: '' @ str_exn env e))]"
  let ?f = "\<lambda>u. fst (classify_image_style env u)"
  from classify_art_style_result [of env texts earlier] obtain rs1 where
    r1: "fst (classify_art_style env texts earlier) = Inr \<lparr>classifications = rs1\<rparr>"
    and m1: "map Inr rs1 = map ?f [u \<leftarrow> earlier. truthy (strip u)]"
    by blast
  from classify_art_style_result [of env texts later] obtain rs2 where
    r2: "fst (classify_art_style env texts later) = Inr \<lparr>classifications = rs2\<rparr>"
    and m2: "map Inr rs2 = map ?f [u \<leftarrow> later. truthy (strip u)]"
    by blast
  from classify_art_style_result [of env texts "earlier @ url # later"] obtain rs where
    r: "fst (classify_art_style env texts (earlier @ url # later)) = Inr \<lparr>classifications = rs\<rparr>"
    and m: "map Inr rs = map ?f [u \<leftarrow> earlier @ url # later. truthy (strip u)]"
    by blast
  have fu: "?f url = Inr ?r"
    by (simp add: classify_image_style_result style_of_image_result fails)
  have "map Inr rs = map ?f [u \<leftarrow> earlier. truthy (strip u)] @ ?f url #
      map ?f [u \<leftarrow> later. truthy (strip u)]"
    using m nonblank by simp
  also have "\<dots> = map Inr rs1 @ Inr ?r # map Inr rs2"
    by (simp only: m1 m2 fu)
  also have "\<dots> = map Inr (rs1 @ ?r # rs2)"
    by simp
  finally have "rs = rs1 @ ?r # rs2"
    by (simp only: inj_map_eq_map [OF inj_Inr])
  moreover have "lit ''Failed to process image: '' @ str_exn env e \<noteq> []"
    by (simp add: lit_def)
  ultimately show ?thesis
    using r1 r2 r by blast
qed

theorem art_style_failure_record_witness:
  "\<exists>rs_later.
      fst (classify_art_style example_env [] [lit ''ok.webp'']) =
        Inr \<lparr>classifications = rs_later\<rparr> \<and>
      fst (classify_art_style example_env [] [[], lit ''bad'', lit ''ok.webp'']) =
        Inr \<lparr>classifications =
           [(''image'', Str (lit ''bad'')), (''style'', Str (lit ''unknown'')),
            (''confidence'', Float 0),
            (''error'', Str (lit ''Failed to process image: no route''))] # rs_later\<rparr>"
proof -
  have nonblank: "truthy (strip (lit ''bad''))"
    by (simp add: example_simps)
  have fails: "image_result example_env (lit ''bad'') = Inl (ExternalError (lit ''no route''))"
    by (simp add: image_result_eq example_env_def)
  have e: "fst (classify_art_style example_env [] [[]]) = Inr \<lparr>classifications = []\<rparr>"
    by (simp add: classify_art_style_def example_simps return_io_def)
  have s: "lit ''Failed to process image: '' @
      str_exn example_env (ExternalError (lit ''no route'')) =
      lit ''Failed to process image: no route''"
    by (simp add: example_env_def lit_def)
  from art_style_failure_record [OF nonblank fails, of "[]" "[[]]" "[lit ''ok.webp'']"]
  show ?thesis
    unfolding e s by auto
qed

section \<open>Properties of \<open>/classify-mood-theme\<close>\<close>

text \<open>
  C5: when no text that is not blank fails, the handler returns one record per text that
  is not blank, in the order of the request, followed by one record per URL that is not
  blank, in the order of the request; the first are of type \<open>text\<close>, the others of type
  \<open>image\<close>, and the content of a record is its text or URL. There are 8 moods and 10
  themes. A record without an \<open>error\<close> item has the items type, content, mood, theme,
  mood_confidence and theme_confidence, in this order, with a mood of the 8 and a theme of
  the 10. When the \<open>i\<close>-th text is embedded as one row and the moods and themes as 8 and
  10 rows, record \<open>i\<close> carries the mood \<open>km\<close> whose score against the row of the text no
  mood exceeds and every earlier mood is strictly below, and the theme \<open>kt\<close> with the
  same property among the theme scores: each is the first maximum of its own scores, and
  the confidences are these scores. The same holds of the record of the \<open>i\<close>-th URL and
  the row of its image.
\<close>

theorem mood_theme_records_in_order:
  assumes ok: "\<forall>t \<in> set texts. truthy (strip t) \<longrightarrow> \<not> isl (fst (classify_text env t))"
  shows "\<exists>results.
     fst (classify_mood_theme env texts image_urls) = Inr results \<and>
     map (\<lambda>r. map_of r ''content'') results =
       map (\<lambda>s. Some (Str s))
         ([t \<leftarrow> texts. truthy (strip t)] @ [u \<leftarrow> image_urls. truthy (strip u)]) \<and>
     map (\<lambda>r. map_of r ''type'') results =
       replicate (length [t \<leftarrow> texts. truthy (strip t)]) (Some (Str (lit ''text''))) @
       replicate (length [u \<leftarrow> image_urls. truthy (strip u)]) (Some (Str (lit ''image''))) \<and>
     length mood_categories = 8 \<and> length theme_categories = 10 \<and>
     (\<forall>r \<in> set results. \<not> has_key r ''error'' \<longrightarrow>
        map fst r =
          [''type'', ''content'', ''mood'', ''theme'', ''mood_confidence'', ''theme_confidence''] \<and>
        (\<exists>m \<in> set mood_categories. map_of r ''mood'' = Some (Str m)) \<and>
        (\<exists>th \<in> set theme_categories. map_of r ''theme'' = Some (Str th))) \<and>
     (\<forall>i < length [t \<leftarrow> texts. truthy (strip t)]. \<forall>x mood_norm theme_norm.
        get_text_features env [[t \<leftarrow> texts. truthy (strip t)] ! i] = Inr [x] \<and>
        get_text_features env mood_categories = Inr mood_norm \<and> length mood_norm = 8 \<and>
        get_text_features env theme_categories = Inr theme_norm \<and> length theme_norm = 10 \<longrightarrow>
        (\<exists>km < 8. \<exists>kt < 10.
           results ! i =
             [(''type'', Str (lit ''text'')),
              (''content'', Str ([t \<leftarrow> texts. truthy (strip t)] ! i)),
              (''mood'', Str (mood_categories ! km)), (''theme'', Str (theme_categories ! kt)),
              (''mood_confidence'', Float (cosine_similarity env x (mood_norm ! km))),
              (''theme_confidence'', Float (cosine_similarity env x (theme_norm ! kt)))] \<and>
           (\<forall>j < 8. cosine_similarity env x (mood_norm ! j)
                       \<le> cosine_similarity env x (mood_norm ! km)) \<and>
           (\<forall>j < km. cosine_similarity env x (mood_norm ! j)
                       < cosine_similarity env x (mood_norm ! km)) \<and>
           (\<forall>j < 10. cosine_similarity env x (theme_norm ! j)
                       \<le> cosine_similarity env x (theme_norm ! kt)) \<and>
           (\<forall>j < kt. cosine_similarity env x (theme_norm ! j)
                       < cosine_similarity env x (theme_norm ! kt)))) \<and>
     (\<forall>i < length [u \<leftarrow> image_urls. truthy (strip u)]. \<forall>x mood_norm theme_norm.
        image_result env ([u \<leftarrow> image_urls. truthy (strip u)] ! i) = Inr x \<and>
        get_text_features env mood_categories = Inr mood_norm \<and> length mood_norm = 8 \<and>
        get_text_features env theme_categories = Inr theme_norm \<and> length theme_norm = 10 \<longrightarrow>
        (\<exists>km < 8. \<exists>kt < 10.
           results ! (length [t \<leftarrow> texts. truthy (strip t)] + i) =
             [(''type'', Str (lit ''image'')),
              (''content'', Str ([u \<leftarrow> image_urls. truthy (strip u)] ! i)),
              (''mood'', Str (mood_categories ! km)), (''theme'', Str (theme_categories ! kt)),
              (''mood_confidence'', Float (cosine_similarity env x (mood_norm ! km))),
              (''theme_confidence'', Float (cosine_similarity env x (theme_norm ! kt)))] \<and>
           (\<forall>j < 8. cosine_similarity env x (mood_norm ! j)
                       \<le> cosine_similarity env x (mood_norm ! km)) \<and>
           (\<forall>j < km. cosine_similarity env x (mood_norm ! j)
                       < cosine_similarity env x (mood_norm ! km)) \<and>
           (\<forall>j < 10. cosine_similarity env x (theme_norm ! j)
                       \<le> cosine_similarity env x (theme_norm ! kt)) \<and>
           (\<forall>j < kt. cosine_similarity env x (theme_norm ! j)
                       < cosine_similarity env x (theme_norm ! kt))))"
proof -
  let ?vt = "[t \<leftarrow> texts. truthy (strip t)]"
  let ?vu = "[u \<leftarrow> image_urls. truthy (strip u)]"
  from classify_mood_theme_total [OF ok] obtain results where
    res: "fst (classify_mood_theme env texts image_urls) = Inr results" by blast
  from classify_mood_theme_Inr [OF res] obtain rt ru where
    split: "results = rt @ ru"
    and mt: "map Inr rt = map (\<lambda>t. fst (classify_text env t)) ?vt"
    and mu: "map Inr ru = map (\<lambda>u. fst (classify_image env u)) ?vu"
    by blast
  have lt: "length rt = length ?vt" and lu: "length ru = length ?vu"
    using mt mu by (metis length_map)+
  have nt: "fst (classify_text env (?vt ! i)) = Inr (results ! i)" if "i < length ?vt" for i
    using map_Inr_nth(1) [OF mt that] that lt by (simp add: split nth_append)
  have nu: "fst (classify_image env (?vu ! i)) = Inr (results ! (length ?vt + i))"
    if "i < length ?vu" for i
    using map_Inr_nth(1) [OF mu that] lt by (simp add: split nth_append)
  have t: "map_of (rt ! i) ''content'' = Some (Str (?vt ! i)) \<and>
      map_of (rt ! i) ''type'' = Some (Str (lit ''text''))" if "i < length ?vt" for i
    using classify_text_shape [OF map_Inr_nth(1) [OF mt that]] by simp
  have u: "map_of (ru ! i) ''content'' = Some (Str (?vu ! i)) \<and>
      map_of (ru ! i) ''type'' = Some (Str (lit ''image''))" if "i < length ?vu" for i
    using classify_image_shape [OF map_Inr_nth(1) [OF mu that]] by simp
  have c: "map (\<lambda>r. map_of r ''content'') results = map (\<lambda>s. Some (Str s)) (?vt @ ?vu)"
    unfolding split map_append
    using t u lt lu by (intro arg_cong2 [where f = "(@)"] nth_equalityI) simp_all
  have ty: "map (\<lambda>r. map_of r ''type'') results =
       replicate (length ?vt) (Some (Str (lit ''text''))) @
       replicate (length ?vu) (Some (Str (lit ''image'')))"
    unfolding split map_append
    using t u lt lu by (intro arg_cong2 [where f = "(@)"] nth_equalityI) simp_all
  have s: "map fst r =
          [''type'', ''content'', ''mood'', ''theme'', ''mood_confidence'', ''theme_confidence''] \<and>
        (\<exists>m \<in> set mood_categories. map_of r ''mood'' = Some (Str m)) \<and>
        (\<exists>th \<in> set theme_categories. map_of r ''theme'' = Some (Str th))"
    if "r \<in> set results" "\<not> has_key r ''error''" for r
  proof -
    from that(1) split consider "r \<in> set rt" | "r \<in> set ru" by auto
    then show ?thesis
    proof cases
      case 1
      from map_Inr_all [OF mt 1] obtain x where "fst (classify_text env x) = Inr r" by blast
      from classify_text_shape [OF this] show ?thesis
        by (intro success_record_keys) blast
    next
      case 2
      from map_Inr_all [OF mu 2] obtain x where "fst (classify_image env x) = Inr r" by blast
      from classify_image_shape [OF this] that(2) show ?thesis
        by (intro success_record_keys) blast
    qed
  qed
  have bt: "\<exists>km < 8. \<exists>kt < 10.
           results ! i =
             [(''type'', Str (lit ''text'')), (''content'', Str (?vt ! i)),
              (''mood'', Str (mood_categories ! km)), (''theme'', Str (theme_categories ! kt)),
              (''mood_confidence'', Float (cosine_similarity env x (mood_norm ! km))),
              (''theme_confidence'', Float (cosine_similarity env x (theme_norm ! kt)))] \<and>
           (\<forall>j < 8. cosine_similarity env x (mood_norm ! j)
                       \<le> cosine_similarity env x (mood_norm ! km)) \<and>
           (\<forall>j < km. cosine_similarity env x (mood_norm ! j)
                       < cosine_similarity env x (mood_norm ! km)) \<and>
           (\<forall>j < 10. cosine_similarity env x (theme_norm ! j)
                       \<le> cosine_similarity env x (theme_norm ! kt)) \<and>
           (\<forall>j < kt. cosine_similarity env x (theme_norm ! j)
                       < cosine_similarity env x (theme_norm ! kt))"
    if "i < length ?vt" "get_text_features env [?vt ! i] = Inr [x]"
      "get_text_features env mood_categories = Inr mood_norm" "length mood_norm = 8"
      "get_text_features env theme_categories = Inr theme_norm" "length theme_norm = 10"
    for i x mood_norm theme_norm
    using classify_text_first_max [OF that(2-6)] nt [OF that(1)] by simp
  have bu: "\<exists>km < 8. \<exists>kt < 10.
           results ! (length ?vt + i) =
             [(''type'', Str (lit ''image'')), (''content'', Str (?vu ! i)),
              (''mood'', Str (mood_categories ! km)), (''theme'', Str (theme_categories ! kt)),
              (''mood_confidence'', Float (cosine_similarity env x (mood_norm ! km))),
              (''theme_confidence'', Float (cosine_similarity env x (theme_norm ! kt)))] \<and>
           (\<forall>j < 8. cosine_similarity env x (mood_norm ! j)
                       \<le> cosine_similarity env x (mood_norm ! km)) \<and>
           (\<forall>j < km. cosine_similarity env x (mood_norm ! j)
                       < cosine_similarity env x (mood_norm ! km)) \<and>
           (\<forall>j < 10. cosine_similarity env x (theme_norm ! j)
                       \<le> cosine_similarity env x (theme_norm ! kt)) \<and>
           (\<forall>j < kt. cosine_similarity env x (theme_norm ! j)
                       < cosine_similarity env x (theme_norm ! kt))"
    if "i < length ?vu" "image_result env (?vu ! i) = Inr x"
      "get_text_features env mood_categories = Inr mood_norm" "length mood_norm = 8"
      "get_text_features env theme_categories = Inr theme_norm" "length theme_norm = 10"
    for i x mood_norm theme_norm
    using classify_image_first_max [OF that(2-6)] nu [OF that(1)] by simp
  show ?thesis
  proof (intro exI [of _ results] conjI)
    show "fst (classify_mood_theme env texts image_urls) = Inr results" by (rule res)
    show "map (\<lambda>r. map_of r ''content'') results = map (\<lambda>s. Some (Str s)) (?vt @ ?vu)"
      by (rule c)
    show "map (\<lambda>r. map_of r ''type'') results =
       replicate (length ?vt) (Some (Str (lit ''text''))) @
       replicate (length ?vu) (Some (Str (lit ''image'')))"
      by (rule ty)
    show "length mood_categories = 8" "length theme_categories = 10"
      by (rule categories_length)+
  qed (use s bt bu in blast)+
qed

theorem mood_theme_records_in_order_witness:
  "\<exists>results.
     fst (classify_mood_theme example_env [lit ''hi'', []] [lit ''bad'', [32], lit ''pic.jpg'']) =
       Inr results \<and>
     map (\<lambda>r. map_of r ''content'') results =
       [Some (Str (lit ''hi'')), Some (Str (lit ''bad'')), Some (Str (lit ''pic.jpg''))] \<and>
     map (\<lambda>r. map_of r ''type'') results =
       [Some (Str (lit ''text'')), Some (Str (lit ''image'')), Some (Str (lit ''image''))] \<and>
     results ! 0 =
       [(''type'', Str (lit ''text'')), (''content'', Str (lit ''hi'')),
        (''mood'', Str (lit ''sad'')), (''theme'', Str (lit ''art'')),
        (''mood_confidence'', Float (9 / 10)), (''theme_confidence'', Float (9 / 10))] \<and>
     results ! 2 =
       [(''type'', Str (lit ''image'')), (''content'', Str (lit ''pic.jpg'')),
        (''mood'', Str (lit ''romantic'')), (''theme'', Str (lit ''fashion'')),
        (''mood_confidence'', Float (9 / 10)), (''theme_confidence'', Float 1)]"
proof -
  let ?texts = "[lit ''hi'', []]"
  let ?urls = "[lit ''bad'', [32], lit ''pic.jpg'']"
  let ?mn = "[5 / 10, 3 / 10, 9 / 10, 4 / 10, 10 / 10, 8 / 10, 10 / 10, 8 / 10 :: real]"
  let ?tn = "[6 / 10, 5 / 10, 10 / 10, 3 / 10, 4 / 10, 6 / 10, 7 / 10, 6 / 10, 8 / 10, 9 / 10 :: real]"
  let ?cos = "cosine_similarity example_env"
  have vt: "[t \<leftarrow> ?texts. truthy (strip t)] = [lit ''hi'']"
    by (simp add: example_simps)
  have vu: "[u \<leftarrow> ?urls. truthy (strip u)] = [lit ''bad'', lit ''pic.jpg'']"
    by (simp add: example_simps)
  have e: "\<not> truthy (strip [])"
    by (simp add: truthy_def strip_def)
  have "truthy (strip t) \<longrightarrow> \<not> isl (fst (classify_text example_env t))" if "t \<in> set ?texts" for t
    using that e by (auto simp: example_classify_hi)
  then have ok: "\<forall>t \<in> set ?texts. truthy (strip t) \<longrightarrow> \<not> isl (fst (classify_text example_env t))"
    by blast
  from mood_theme_records_in_order [OF ok, of ?urls]
  obtain results where
    res: "fst (classify_mood_theme example_env ?texts ?urls) = Inr results"
    and c: "map (\<lambda>r. map_of r ''content'') results =
       map (\<lambda>s. Some (Str s))
         ([t \<leftarrow> ?texts. truthy (strip t)] @ [u \<leftarrow> ?urls. truthy (strip u)])"
    and ty: "map (\<lambda>r. map_of r ''type'') results =
       replicate (length [t \<leftarrow> ?texts. truthy (strip t)]) (Some (Str (lit ''text''))) @
       replicate (length [u \<leftarrow> ?urls. truthy (strip u)]) (Some (Str (lit ''image'')))"
    and bt: "\<forall>i < length [t \<leftarrow> ?texts. truthy (strip t)]. \<forall>x mood_norm theme_norm.
        get_text_features example_env [[t \<leftarrow> ?texts. truthy (strip t)] ! i] = Inr [x] \<and>
        get_text_features example_env mood_categories = Inr mood_norm \<and> length mood_norm = 8 \<and>
        get_text_features example_env theme_categories = Inr theme_norm \<and> length theme_norm = 10 \<longrightarrow>
        (\<exists>km < 8. \<exists>kt < 10.
           results ! i =
             [(''type'', Str (lit ''text'')),
              (''content'', Str ([t \<leftarrow> ?texts. truthy (strip t)] ! i)),
              (''mood'', Str (mood_categories ! km)), (''theme'', Str (theme_categories ! kt)),
              (''mood_confidence'', Float (?cos x (mood_norm ! km))),
              (''theme_confidence'', Float (?cos x (theme_norm ! kt)))] \<and>
           (\<forall>j < 8. ?cos x (mood_norm ! j) \<le> ?cos x (mood_norm ! km)) \<and>
           (\<forall>j < km. ?cos x (mood_norm ! j) < ?cos x (mood_norm ! km)) \<and>
           (\<forall>j < 10. ?cos x (theme_norm ! j) \<le> ?cos x (theme_norm ! kt)) \<and>
           (\<forall>j < kt. ?cos x (theme_norm ! j) < ?cos x (theme_norm ! kt)))"
    and bu: "\<forall>i < length [u \<leftarrow> ?urls. truthy (strip u)]. \<forall>x mood_norm theme_norm.
        image_result example_env ([u \<leftarrow> ?urls. truthy (strip u)] ! i) = Inr x \<and>
        get_text_features example_env mood_categories = Inr mood_norm \<and> length mood_norm = 8 \<and>
        get_text_features example_env theme_categories = Inr theme_norm \<and> length theme_norm = 10 \<longrightarrow>
        (\<exists>km < 8. \<exists>kt < 10.
           results ! (length [t \<leftarrow> ?texts. truthy (strip t)] + i) =
             [(''type'', Str (lit ''image'')),
              (''content'', Str ([u \<leftarrow> ?urls. truthy (strip u)] ! i)),
              (''mood'', Str (mood_categories ! km)), (''theme'', Str (theme_categories ! kt)),
              (''mood_confidence'', Float (?cos x (mood_norm ! km))),
              (''theme_confidence'', Float (?cos x (theme_norm ! kt)))] \<and>
           (\<forall>j < 8. ?cos x (mood_norm ! j) \<le> ?cos x (mood_norm ! km)) \<and>
           (\<forall>j < km. ?cos x (mood_norm ! j) < ?cos x (mood_norm ! km)) \<and>
           (\<forall>j < 10. ?cos x (theme_norm ! j) \<le> ?cos x (theme_norm ! kt)) \<and>
           (\<forall>j < kt. ?cos x (theme_norm ! j) < ?cos x (theme_norm ! kt)))"
    by blast
  \<comment> \<open>the text \<open>hi\<close>: a single best mood and a single best theme\<close>
  have pt: "0 < length [t \<leftarrow> ?texts. truthy (strip t)]"
    unfolding vt by simp
  have qt: "get_text_features example_env [[t \<leftarrow> ?texts. truthy (strip t)] ! 0] = Inr [2 / 10] \<and>
      get_text_features example_env mood_categories = Inr ?mn \<and> length ?mn = 8 \<and>
      get_text_features example_env theme_categories = Inr ?tn \<and> length ?tn = 10"
    using example_mood_norm example_theme_norm unfolding vt
    by (simp add: example_env_def lit_def)
  from bt [rule_format, OF pt qt] obtain km kt where km: "km < 8" and kt: "kt < 10"
    and r0: "results ! 0 =
        [(''type'', Str (lit ''text'')),
         (''content'', Str ([t \<leftarrow> ?texts. truthy (strip t)] ! 0)),
         (''mood'', Str (mood_categories ! km)), (''theme'', Str (theme_categories ! kt)),
         (''mood_confidence'', Float (?cos (2 / 10) (?mn ! km))),
         (''theme_confidence'', Float (?cos (2 / 10) (?tn ! kt)))]"
    and mmx: "\<forall>j < 8. ?cos (2 / 10) (?mn ! j) \<le> ?cos (2 / 10) (?mn ! km)"
    and tmx: "\<forall>j < 10. ?cos (2 / 10) (?tn ! j) \<le> ?cos (2 / 10) (?tn ! kt)"
    by blast
  from mmx [rule_format, of 1] have "?cos (2 / 10) (?mn ! 1) \<le> ?cos (2 / 10) (?mn ! km)" by simp
  with less_8_cases [OF km] have km1: "km = 1"
    by (auto simp: example_env_def)
  from tmx [rule_format, of 3] have "?cos (2 / 10) (?tn ! 3) \<le> ?cos (2 / 10) (?tn ! kt)" by simp
  with less_10_cases [OF kt] have kt3: "kt = 3"
    by (auto simp: example_env_def)
  from r0 have r0': "results ! 0 =
       [(''type'', Str (lit ''text'')), (''content'', Str (lit ''hi'')),
        (''mood'', Str (lit ''sad'')), (''theme'', Str (lit ''art'')),
        (''mood_confidence'', Float (9 / 10)), (''theme_confidence'', Float (9 / 10))]"
    unfolding vt km1 kt3
    by (simp add: mood_categories_def theme_categories_def example_env_def)
  \<comment> \<open>the image: two moods share the best score, the first of them is chosen\<close>
  have pu: "1 < length [u \<leftarrow> ?urls. truthy (strip u)]"
    unfolding vu by simp
  have qu: "image_result example_env ([u \<leftarrow> ?urls. truthy (strip u)] ! 1) = Inr (7 / 10) \<and>
      get_text_features example_env mood_categories = Inr ?mn \<and> length ?mn = 8 \<and>
      get_text_features example_env theme_categories = Inr ?tn \<and> length ?tn = 10"
    using example_mood_norm example_theme_norm unfolding vu
    by (simp add: image_result_eq example_env_def lit_def)
  from bu [rule_format, OF pu qu] obtain km' kt' where km': "km' < 8" and kt': "kt' < 10"
    and r2: "results ! (length [t \<leftarrow> ?texts. truthy (strip t)] + 1) =
        [(''type'', Str (lit ''image'')),
         (''content'', Str ([u \<leftarrow> ?urls. truthy (strip u)] ! 1)),
         (''mood'', Str (mood_categories ! km')), (''theme'', Str (theme_categories ! kt')),
         (''mood_confidence'', Float (?cos (7 / 10) (?mn ! km'))),
         (''theme_confidence'', Float (?cos (7 / 10) (?tn ! kt')))]"
    and mmx': "\<forall>j < 8. ?cos (7 / 10) (?mn ! j) \<le> ?cos (7 / 10) (?mn ! km')"
    and mfs': "\<forall>j < km'. ?cos (7 / 10) (?mn ! j) < ?cos (7 / 10) (?mn ! km')"
    and tmx': "\<forall>j < 10. ?cos (7 / 10) (?tn ! j) \<le> ?cos (7 / 10) (?tn ! kt')"
    by blast
  from mmx' [rule_format, of 5] have "?cos (7 / 10) (?mn ! 5) \<le> ?cos (7 / 10) (?mn ! km')" by simp
  with less_8_cases [OF km'] have "km' = 5 \<or> km' = 7"
    by (auto simp: example_env_def)
  moreover have "km' \<noteq> 7"
  proof
    assume "km' = 7"
    with mfs' [rule_format, of 5] have "?cos (7 / 10) (?mn ! 5) < ?cos (7 / 10) (?mn ! 7)" by simp
    then show False by (simp add: example_env_def)
  qed
  ultimately have km5: "km' = 5" by blast
  from tmx' [rule_format, of 6] have "?cos (7 / 10) (?tn ! 6) \<le> ?cos (7 / 10) (?tn ! kt')" by simp
  with less_10_cases [OF kt'] have kt6: "kt' = 6"
    by (auto simp: example_env_def)
  from r2 have r2': "results ! 2 =
       [(''type'', Str (lit ''image'')), (''content'', Str (lit ''pic.jpg'')),
        (''mood'', Str (lit ''romantic'')), (''theme'', Str (lit ''fashion'')),
        (''mood_confidence'', Float (9 / 10)), (''theme_confidence'', Float 1)]"
    unfolding vt vu km5 kt6
    by (simp add: mood_categories_def theme_categories_def example_env_def numeral_2_eq_2)
  from res c ty r0' r2' show ?thesis
    unfolding vt vu by (intro exI [of _ results]) (simp add: numeral_2_eq_2)
qed

text \<open>
  C7: a URL whose image cannot be fetched or embedded gets the record with exactly the
  items type (\<open>image\<close>), content (the URL) and error, and this record stands at the
  place of the URL in the result. A record of type \<open>text\<close> never has an \<open>error\<close>
  item. And when a text that is not blank fails, the handler returns no list: it raises.
\<close>

theorem mood_theme_failures:
  "(\<forall>url e. image_result env url = Inl e \<longrightarrow>
       fst (classify_image env url) =
         Inr [(''type'', Str (lit ''image'')), (''content'', Str url),
              (''error'', Str (lit ''Failed to process image: '' @ str_exn env e))]) \<and>
   (\<forall>results. fst (classify_mood_theme env texts image_urls) = Inr results \<longrightarrow>
       (\<forall>r \<in> set results.
           map_of r ''type'' = Some (Str (lit ''text'')) \<longrightarrow> \<not> has_key r ''error'') \<and>
       (\<forall>i < length [u \<leftarrow> image_urls. truthy (strip u)]. \<forall>e.
           image_result env ([u \<leftarrow> image_urls. truthy (strip u)] ! i) = Inl e \<longrightarrow>
           results ! (length [t \<leftarrow> texts. truthy (strip t)] + i) =
             [(''type'', Str (lit ''image'')),
              (''content'', Str ([u \<leftarrow> image_urls. truthy (strip u)] ! i)),
              (''error'', Str (lit ''Failed to process image: '' @ str_exn env e))])) \<and>
   (\<forall>t \<in> set texts. \<forall>e. truthy (strip t) \<and> fst (classify_text env t) = Inl e \<longrightarrow>
       (\<exists>e'. fst (classify_mood_theme env texts image_urls) = Inl e'))"
proof (intro conjI allI impI ballI)
  fix url e
  assume "image_result env url = Inl e"
  then show "fst (classify_image env url) =
         Inr [(''type'', Str (lit ''image'')), (''content'', Str url),
              (''error'', Str (lit ''Failed to process image: '' @ str_exn env e))]"
    by (simp add: classify_image_result)
next
  fix results r
  assume res: "fst (classify_mood_theme env texts image_urls) = Inr results"
    and r: "r \<in> set results" and ty: "map_of r ''type'' = Some (Str (lit ''text''))"
  from classify_mood_theme_Inr [OF res] obtain rt ru where
    split: "results = rt @ ru"
    and mt: "map Inr rt = map (\<lambda>t. fst (classify_text env t)) [t \<leftarrow> texts. truthy (strip t)]"
    and mu: "map Inr ru = map (\<lambda>u. fst (classify_image env u)) [u \<leftarrow> image_urls. truthy (strip u)]"
    by blast
  from r split consider "r \<in> set rt" | "r \<in> set ru" by auto
  then show "\<not> has_key r ''error''"
  proof cases
    case 1
    from map_Inr_all [OF mt 1] obtain x where "fst (classify_text env x) = Inr r" by blast
    from classify_text_shape [OF this] show ?thesis by blast
  next
    case 2
    from map_Inr_all [OF mu 2] obtain x where "fst (classify_image env x) = Inr r" by blast
    from classify_image_shape [OF this] ty lit_text_neq_image show ?thesis by simp
  qed
next
  fix results i e
  assume res: "fst (classify_mood_theme env texts image_urls) = Inr results"
    and i: "i < length [u \<leftarrow> image_urls. truthy (strip u)]"
    and f: "image_result env ([u \<leftarrow> image_urls. truthy (strip u)] ! i) = Inl e"
  from classify_mood_theme_Inr [OF res] obtain rt ru where
    split: "results = rt @ ru"
    and mt: "map Inr rt = map (\<lambda>t. fst (classify_text env t)) [t \<leftarrow> texts. truthy (strip t)]"
    and mu: "map Inr ru = map (\<lambda>u. fst (classify_image env u)) [u \<leftarrow> image_urls. truthy (strip u)]"
    by blast
  from mt have lt: "length rt = length [t \<leftarrow> texts. truthy (strip t)]"
    by (metis length_map)
  from map_Inr_nth(1) [OF mu i] f have
    "ru ! i = [(''type'', Str (lit ''image'')),
              (''content'', Str ([u \<leftarrow> image_urls. truthy (strip u)] ! i)),
              (''error'', Str (lit ''Failed to process image: '' @ str_exn env e))]"
    by (simp add: classify_image_result)
  then show "results ! (length [t \<leftarrow> texts. truthy (strip t)] + i) =
             [(''type'', Str (lit ''image'')),
              (''content'', Str ([u \<leftarrow> image_urls. truthy (strip u)] ! i)),
              (''error'', Str (lit ''Failed to process image: '' @ str_exn env e))]"
    by (simp add: split lt [symmetric])
next
  fix t e
  assume "t \<in> set texts" and "truthy (strip t) \<and> fst (classify_text env t) = Inl e"
  then show "\<exists>e'. fst (classify_mood_theme env texts image_urls) = Inl e'"
    using classify_mood_theme_raises by blast
qed

theorem mood_theme_failures_witness:
  "(\<exists>results.
      fst (classify_mood_theme example_env [lit ''hi''] [lit ''bad'']) = Inr results \<and>
      \<not> has_key (results ! 0) ''error'' \<and>
      results ! 1 =
        [(''type'', Str (lit ''image'')), (''content'', Str (lit ''bad'')),
         (''error'', Str (lit ''Failed to process image: no route''))]) \<and>
   (\<exists>e'. fst (classify_mood_theme example_env [lit ''hi'', lit ''boom''] [lit ''bad'']) = Inl e')"
proof -
  let ?bad = "[(''type'', Str (lit ''image'')), (''content'', Str (lit ''bad'')),
         (''error'', Str (lit ''Failed to process image: no route''))]"
  have vt: "[t \<leftarrow> [lit ''hi'']. truthy (strip t)] = [lit ''hi'']"
    by (simp add: example_simps)
  have vu: "[u \<leftarrow> [lit ''bad'']. truthy (strip u)] = [lit ''bad'']"
    by (simp add: example_simps)
  have fails: "image_result example_env (lit ''bad'') = Inl (ExternalError (lit ''no route''))"
    by (simp add: image_result_eq example_env_def)
  have msg: "lit ''Failed to process image: '' @
      str_exn example_env (ExternalError (lit ''no route'')) =
      lit ''Failed to process image: no route''"
    by (simp add: example_env_def lit_def)
  have nbh: "truthy (strip (lit ''hi''))" and nbb: "truthy (strip (lit ''bad''))"
    by (simp_all add: example_simps)
  have ev: "fst (classify_mood_theme example_env [lit ''hi''] [lit ''bad'']) =
      Inr [[(''type'', Str (lit ''text'')), (''content'', Str (lit ''hi'')),
            (''mood'', Str (lit ''sad'')), (''theme'', Str (lit ''art'')),
            (''mood_confidence'', Float (9 / 10)), (''theme_confidence'', Float (9 / 10))],
           ?bad]"
    (is "_ = Inr ?results")
    by (simp add: classify_mood_theme_def fst_io nbh nbb example_classify_hi
        classify_image_result fails msg)
  note th = mood_theme_failures [of example_env "[lit ''hi'']" "[lit ''bad'']"]
  from th have "\<forall>r \<in> set ?results.
      map_of r ''type'' = Some (Str (lit ''text'')) \<longrightarrow> \<not> has_key r ''error''"
    using ev by blast
  then have a: "\<not> has_key (?results ! 0) ''error''"
    by simp
  from th have "\<forall>i < length [u \<leftarrow> [lit ''bad'']. truthy (strip u)]. \<forall>e.
           image_result example_env ([u \<leftarrow> [lit ''bad'']. truthy (strip u)] ! i) = Inl e \<longrightarrow>
           ?results ! (length [t \<leftarrow> [lit ''hi'']. truthy (strip t)] + i) =
             [(''type'', Str (lit ''image'')),
              (''content'', Str ([u \<leftarrow> [lit ''bad'']. truthy (strip u)] ! i)),
              (''error'', Str (lit ''Failed to process image: '' @ str_exn example_env e))]"
    using ev by blast
  then have b: "?results ! 1 = ?bad"
    unfolding vt vu using fails by simp
  have t: "lit ''boom'' \<in> set [lit ''hi'', lit ''boom'']" by simp
  have nb: "truthy (strip (lit ''boom''))"
    by (simp add: example_simps)
  from mood_theme_failures [of example_env "[lit ''hi'', lit ''boom'']" "[lit ''bad'']"]
  have c: "\<exists>e'. fst (classify_mood_theme example_env [lit ''hi'', lit ''boom''] [lit ''bad'']) = Inl e'"
    using t nb example_classify_boom by blast
  from ev a b c show ?thesis by blast
qed

section \<open>Determinism of the three handlers\<close>



end
